theory Spec2Isabelle
  imports Main "HOL-Library.Char_ord" "HOL-Library.List_Lexorder"
begin

section \<open>Go values used by the authentication core\<close>

text \<open>
  A Go \<^verbatim>\<open>string\<close> is a byte sequence, modelled as \<^typ>\<open>string\<close>; \<^verbatim>\<open>len\<close> is
  \<^const>\<open>length\<close>. A pointer that may be \<^verbatim>\<open>nil\<close> is an option (\<^verbatim>\<open>nil\<close> is
  \<^const>\<open>None\<close>). A \<^verbatim>\<open>time.Time\<close> is the number of nanoseconds since the epoch and a
  \<^verbatim>\<open>time.Duration\<close> a number of nanoseconds, both \<^typ>\<open>int\<close>.

  A Go \<^verbatim>\<open>error\<close> is a message, possibly wrapping another error
  (\<^verbatim>\<open>fmt.Errorf("...: %w", err)\<close>). A function returning only \<^verbatim>\<open>error\<close> returns an
  \<open>error option\<close>, one returning \<^verbatim>\<open>(T, error)\<close> returns \<open>error + T\<close>.
\<close>

type_synonym time = int
type_synonym duration = int

definition Second :: duration where
  "Second = 1000000000"

definition Hour :: duration where
  "Hour = 3600 * Second"

datatype error = Err string | Wrap string error

text \<open>
  \<^verbatim>\<open>strings.ToLower\<close> and \<^verbatim>\<open>strings.TrimSpace\<close> on ASCII: the letters A to Z are
  lowered, and the white space stripped at both ends is space, tab, line feed, vertical
  tab, form feed and carriage return. Bytes of multi-byte UTF-8 sequences are left as
  they are.
\<close>

definition toLowerByte :: "char \<Rightarrow> char" where
  "toLowerByte c =
     (case map_of (zip ''ABCDEFGHIJKLMNOPQRSTUVWXYZ'' ''abcdefghijklmnopqrstuvwxyz'') c of
        Some l \<Rightarrow> l
      | None \<Rightarrow> c)"

definition ToLower :: "string \<Rightarrow> string" where
  "ToLower s = map toLowerByte s"

definition isSpace :: "char \<Rightarrow> bool" where
  "isSpace c = (c \<in> set [CHR '' '', CHR 0x09, CHR 0x0A, CHR 0x0B, CHR 0x0C, CHR 0x0D])"

definition TrimSpace :: "string \<Rightarrow> string" where
  "TrimSpace s = rev (dropWhile isSpace (rev (dropWhile isSpace s)))"

text \<open>\<^verbatim>\<open>strings.Contains(s, substr)\<close>: \<open>substr\<close> occurs in \<open>s\<close> as a contiguous block.\<close>

fun hasPrefix :: "string \<Rightarrow> string \<Rightarrow> bool" where
  "hasPrefix s [] = True"
| "hasPrefix [] (p # ps) = False"
| "hasPrefix (c # cs) (p # ps) = (c = p \<and> hasPrefix cs ps)"

fun Contains :: "string \<Rightarrow> string \<Rightarrow> bool" where
  "Contains [] substr = (substr = [])"
| "Contains (c # cs) substr = (hasPrefix (c # cs) substr \<or> Contains cs substr)"

section \<open>Strings produced by the cryptographic libraries\<close>

text \<open>
  Two kinds of strings are produced by third-party libraries and only ever compared,
  stored and handed back to those libraries: bcrypt hashes
  (\<^verbatim>\<open>golang.org/x/crypto/bcrypt\<close>) and signed tokens (\<^verbatim>\<open>github.com/golang-jwt/jwt/v5\<close>).
  They are modelled by what they encode, the encoding being injective.

  A bcrypt hash string \<^verbatim>\<open>$2a$cost$salt digest\<close> encodes the cost, the salt and the
  digest. The digest is determined by the cost, the salt and the key material that the
  Blowfish key schedule reads, and is represented by them. Any other string is
  \<open>NotBcrypt\<close>.
\<close>

datatype HashedPassword =
    Bcrypt int string string
  | NotBcrypt string

text \<open>
  The claims carried by a token (\<^verbatim>\<open>TokenClaims\<close> of the service package, embedding
  \<^verbatim>\<open>jwt.RegisteredClaims\<close>). The three dates are optional in a parsed token.
\<close>

type_synonym TokenType = string

definition TokenTypeAccess :: TokenType where
  "TokenTypeAccess = ''access''"

definition TokenTypeRefresh :: TokenType where
  "TokenTypeRefresh = ''refresh''"

record TokenClaims =
  ClaimsUserID :: string
  ClaimsEmail :: string
  ClaimsRole :: string
  ClaimsTokenType :: TokenType
  ClaimsExpiresAt :: "time option"
  ClaimsIssuedAt :: "time option"
  ClaimsNotBefore :: "time option"
  ClaimsSubject :: string

text \<open>
  A token string in compact serialisation has three segments: the header (of which
  only \<^verbatim>\<open>alg\<close> matters, absent when the header has no such string), the claims and
  the signature. An HMAC signature is represented by the hash name, the key and the
  signed text (header and claims); every other signature segment is \<open>OtherSignature\<close>.
  A string that does not split into three decodable segments is \<open>Malformed\<close>.
\<close>

datatype Signature =
    HMACSig string string "string option" TokenClaims
  | OtherSignature string

datatype TokenString =
    JWT "string option" TokenClaims Signature
  | Malformed string

section \<open>Domain entities\<close>

subsection \<open>User (entity package)\<close>

type_synonym Role = string
type_synonym Provider = string

definition RoleUser :: Role where
  "RoleUser = ''USER''"

definition RoleAdmin :: Role where
  "RoleAdmin = ''ADMIN''"

definition ProviderLocal :: Provider where
  "ProviderLocal = ''LOCAL''"

definition ProviderGoogle :: Provider where
  "ProviderGoogle = ''GOOGLE''"

record User =
  ID :: string
  Email :: string
  Password :: "HashedPassword option"
  Name :: string
  Role :: Role
  Provider :: Provider
  ProviderID :: "string option"
  Avatar :: "string option"
  EmailVerified :: bool
  CreatedAt :: time
  UpdatedAt :: time

text \<open>
  \<^verbatim>\<open>NewUser\<close> and \<^verbatim>\<open>NewOAuthUser\<close> draw a random UUID and read the clock; both are
  arguments here (\<open>uuid\<close>, \<open>now\<close>).
\<close>

definition NewUser :: "string \<Rightarrow> time \<Rightarrow> string \<Rightarrow> string \<Rightarrow> Role \<Rightarrow> User" where
  "NewUser uuid now email name role =
     \<lparr> ID = uuid,
       Email = ToLower (TrimSpace email),
       Password = None,
       Name = TrimSpace name,
       Role = role,
       Provider = ProviderLocal,
       ProviderID = None,
       Avatar = None,
       EmailVerified = False,
       CreatedAt = now,
       UpdatedAt = now \<rparr>"

definition NewOAuthUser ::
  "string \<Rightarrow> time \<Rightarrow> string \<Rightarrow> string \<Rightarrow> string \<Rightarrow> Provider \<Rightarrow> string option \<Rightarrow> User" where
  "NewOAuthUser uuid now email name providerID provider avatar =
     \<lparr> ID = uuid,
       Email = ToLower (TrimSpace email),
       Password = None,
       Name = TrimSpace name,
       Role = RoleUser,
       Provider = provider,
       ProviderID = Some providerID,
       Avatar = avatar,
       EmailVerified = True,
       CreatedAt = now,
       UpdatedAt = now \<rparr>"

definition IsValidEmail :: "User \<Rightarrow> bool" where
  "IsValidEmail u =
     (Contains (Email u) ''@'' \<and> Contains (Email u) ''.'' \<and>
      length (Email u) > 5 \<and> length (Email u) \<le> 255)"

definition Validate :: "User \<Rightarrow> error option" where
  "Validate u =
     (if Email u = '''' then Some (Err ''email is required'')
      else if \<not> IsValidEmail u then Some (Err ''invalid email format'')
      else if Name u = '''' then Some (Err ''name is required'')
      else if length (Name u) < 2 \<or> length (Name u) > 100
        then Some (Err ''name must be between 2 and 100 characters'')
      else if Provider u = ProviderLocal \<and> (Password u = None \<or> Password u = Some (NotBcrypt ''''))
        then Some (Err ''password is required for local users'')
      else if Provider u \<noteq> ProviderLocal \<and> (ProviderID u = None \<or> ProviderID u = Some '''')
        then Some (Err ''provider ID is required for OAuth users'')
      else None)"

definition IsOAuthUser :: "User \<Rightarrow> bool" where
  "IsOAuthUser u = (Provider u \<noteq> ProviderLocal)"

definition SetPassword :: "time \<Rightarrow> HashedPassword \<Rightarrow> User \<Rightarrow> User" where
  "SetPassword now hashedPassword u =
     (if Provider u = ProviderLocal
      then u\<lparr>Password := Some hashedPassword, UpdatedAt := now\<rparr>
      else u)"

subsection \<open>Token (entity package): the session record of a refresh token\<close>

record Token =
  TokenID :: string
  TokenUserID :: string
  RefreshToken :: TokenString
  ExpiresAt :: time
  TokenCreatedAt :: time
  TokenUpdatedAt :: time

definition NewToken :: "string \<Rightarrow> time \<Rightarrow> string \<Rightarrow> TokenString \<Rightarrow> time \<Rightarrow> Token" where
  "NewToken uuid now userID refreshToken expiresAt =
     \<lparr> TokenID = uuid,
       TokenUserID = userID,
       RefreshToken = refreshToken,
       ExpiresAt = expiresAt,
       TokenCreatedAt = now,
       TokenUpdatedAt = now \<rparr>"

section \<open>The bcrypt library, as the password service calls it\<close>

text \<open>
  \<^verbatim>\<open>bcrypt.GenerateFromPassword\<close> refuses a password of more than 72 bytes
  (\<^verbatim>\<open>ErrPasswordTooLong\<close>), replaces a cost below \<^verbatim>\<open>MinCost\<close> by \<^verbatim>\<open>DefaultCost\<close>,
  refuses a cost above \<^verbatim>\<open>MaxCost\<close>, draws a random salt (the argument \<open>salt\<close>) and
  hashes. The key schedule reads the password followed by a zero byte, cyclically, for
  72 bytes: \<open>eksKey\<close>. \<^verbatim>\<open>bcrypt.CompareHashAndPassword\<close> parses the hash, hashes the
  candidate with the cost and salt found there and compares the two hash strings; it
  does not check the candidate's length. (Releases of the library before v0.5.0 did not
  refuse a longer password either: the bytes after the 72nd were ignored.)
\<close>

definition MinCost :: int where
  "MinCost = 4"

definition MaxCost :: int where
  "MaxCost = 31"

definition DefaultCost :: int where
  "DefaultCost = 10"

definition ErrPasswordTooLong :: error where
  "ErrPasswordTooLong = Err ''bcrypt: password length exceeds 72 bytes''"

definition ErrMismatchedHashAndPassword :: error where
  "ErrMismatchedHashAndPassword =
     Err ''crypto/bcrypt: hashedPassword is not the hash of the given password''"

definition ErrHashTooShort :: error where
  "ErrHashTooShort = Err ''crypto/bcrypt: hashedSecret too short to be a bcrypted password''"

definition InvalidCostError :: error where
  "InvalidCostError = Err ''crypto/bcrypt: cost is outside allowed inclusive range 4..31''"

definition eksKey :: "string \<Rightarrow> string" where
  "eksKey password = take 72 (concat (replicate 72 (password @ [CHR 0x00])))"

definition GenerateFromPassword :: "string \<Rightarrow> string \<Rightarrow> int \<Rightarrow> error + HashedPassword" where
  "GenerateFromPassword salt password cost =
     (if length password > 72 then Inl ErrPasswordTooLong
      else let cost' = (if cost < MinCost then DefaultCost else cost)
           in if cost' < MinCost \<or> cost' > MaxCost then Inl InvalidCostError
              else Inr (Bcrypt cost' salt (eksKey password)))"

definition CompareHashAndPassword :: "HashedPassword \<Rightarrow> string \<Rightarrow> error option" where
  "CompareHashAndPassword hashedPassword password =
     (case hashedPassword of
        NotBcrypt s \<Rightarrow> Some ErrHashTooShort
      | Bcrypt c salt digest \<Rightarrow>
          if c < MinCost \<or> c > MaxCost then Some InvalidCostError
          else if Bcrypt c salt (eksKey password) = hashedPassword then None
          else Some ErrMismatchedHashAndPassword)"

section \<open>Password service (service package)\<close>

record passwordService =
  cost :: int

definition NewPasswordService :: passwordService where
  "NewPasswordService = \<lparr> cost = DefaultCost \<rparr>"

definition ValidatePassword :: "passwordService \<Rightarrow> string \<Rightarrow> error option" where
  "ValidatePassword s password =
     (if length password < 8 then Some (Err ''password must be at least 8 characters long'')
      else if length password > 128
        then Some (Err ''password must be less than 128 characters long'')
      else None)"

definition HashPassword :: "passwordService \<Rightarrow> string \<Rightarrow> string \<Rightarrow> error + HashedPassword" where
  "HashPassword s salt password =
     (case ValidatePassword s password of
        Some err \<Rightarrow> Inl (Wrap ''password validation failed'' err)
      | None \<Rightarrow>
          (case GenerateFromPassword salt password (cost s) of
             Inl err \<Rightarrow> Inl (Wrap ''failed to hash password'' err)
           | Inr hashedBytes \<Rightarrow> Inr hashedBytes))"

definition VerifyPassword :: "passwordService \<Rightarrow> string \<Rightarrow> HashedPassword \<Rightarrow> error option" where
  "VerifyPassword s password hash = CompareHashAndPassword hash password"

section \<open>The jwt library, as the token service calls it\<close>

text \<open>
  The registered signing methods, by the type of the method object: the key function of
  the token service tests for \<^verbatim>\<open>*jwt.SigningMethodHMAC\<close>.
\<close>

datatype SigningMethod =
    SigningMethodHMAC string
  | SigningMethodRSA string
  | SigningMethodRSAPSS string
  | SigningMethodECDSA string
  | SigningMethodEd25519
  | SigningMethodNone

definition GetSigningMethod :: "string \<Rightarrow> SigningMethod option" where
  "GetSigningMethod alg =
     (if alg \<in> set [''HS256'', ''HS384'', ''HS512''] then Some (SigningMethodHMAC alg)
      else if alg \<in> set [''RS256'', ''RS384'', ''RS512''] then Some (SigningMethodRSA alg)
      else if alg \<in> set [''PS256'', ''PS384'', ''PS512''] then Some (SigningMethodRSAPSS alg)
      else if alg \<in> set [''ES256'', ''ES384'', ''ES512''] then Some (SigningMethodECDSA alg)
      else if alg = ''EdDSA'' then Some SigningMethodEd25519
      else if alg = ''none'' then Some SigningMethodNone
      else None)"

definition ErrTokenMalformed :: error where
  "ErrTokenMalformed = Err ''token is malformed''"

definition ErrTokenUnverifiable :: error where
  "ErrTokenUnverifiable = Err ''token is unverifiable''"

definition ErrTokenExpired :: error where
  "ErrTokenExpired = Err ''token is expired''"

definition ErrTokenNotValidYet :: error where
  "ErrTokenNotValidYet = Err ''token is not valid yet''"

text \<open>
  \<^verbatim>\<open>jwt.NewNumericDate\<close> truncates a time to the library's \<^verbatim>\<open>TimePrecision\<close>, one
  second.
\<close>

definition NewNumericDate :: "time \<Rightarrow> time" where
  "NewNumericDate t = t - t mod Second"

text \<open>
  \<^verbatim>\<open>Method.Verify\<close> with a byte-slice key: an HMAC method recomputes the MAC of the signed
  text and compares; every other method refuses a byte slice as its key.
\<close>

definition Verify ::
  "SigningMethod \<Rightarrow> string option \<Rightarrow> TokenClaims \<Rightarrow> Signature \<Rightarrow> string \<Rightarrow> error option" where
  "Verify method alg claims sig key =
     (case method of
        SigningMethodHMAC name \<Rightarrow>
          if sig = HMACSig name key alg claims then None
          else Some (Err ''signature is invalid'')
      | _ \<Rightarrow> Some (Err ''key is of invalid type''))"

text \<open>
  The claims validator with default options: \<^verbatim>\<open>exp\<close> must be after the current time
  and \<^verbatim>\<open>nbf\<close> not after it, each only when present; \<^verbatim>\<open>iat\<close> is not checked.
\<close>

definition validateClaims :: "time \<Rightarrow> TokenClaims \<Rightarrow> error option" where
  "validateClaims now claims =
     (if (case ClaimsExpiresAt claims of None \<Rightarrow> False | Some exp \<Rightarrow> \<not> now < exp)
        then Some ErrTokenExpired
      else if (case ClaimsNotBefore claims of None \<Rightarrow> False | Some nbf \<Rightarrow> now < nbf)
        then Some ErrTokenNotValidYet
      else None)"

text \<open>
  \<^verbatim>\<open>jwt.ParseWithClaims\<close>: split and decode the token, look the signing method up by
  the header's \<^verbatim>\<open>alg\<close>, ask the key function for the key, verify the signature, validate
  the claims. On success the token's \<^verbatim>\<open>Valid\<close> flag is set; the result is the claims
  and that flag. The library reads the clock for the claims validation (\<open>now\<close>).
\<close>

definition ParseWithClaims ::
  "time \<Rightarrow> TokenString \<Rightarrow> (string option \<Rightarrow> SigningMethod \<Rightarrow> error + string) \<Rightarrow>
   error + (TokenClaims \<times> bool)" where
  "ParseWithClaims now tokenString keyFunc =
     (case tokenString of
        Malformed s \<Rightarrow> Inl ErrTokenMalformed
      | JWT alg claims sig \<Rightarrow>
          (case alg of
             None \<Rightarrow> Inl (Wrap ''signing method (alg) is unspecified'' ErrTokenUnverifiable)
           | Some a \<Rightarrow>
               (case GetSigningMethod a of
                  None \<Rightarrow> Inl (Wrap ''signing method (alg) is unavailable'' ErrTokenUnverifiable)
                | Some method \<Rightarrow>
                    (case keyFunc alg method of
                       Inl err \<Rightarrow>
                         Inl (Wrap ''error while executing keyfunc'' (Wrap ''token is unverifiable'' err))
                     | Inr key \<Rightarrow>
                         (case Verify method alg claims sig key of
                            Some err \<Rightarrow> Inl (Wrap ''token signature is invalid'' err)
                          | None \<Rightarrow>
                              (case validateClaims now claims of
                                 Some err \<Rightarrow> Inl (Wrap ''token has invalid claims'' err)
                               | None \<Rightarrow> Inr (claims, True)))))))"

text \<open>
  \<^verbatim>\<open>jwt.NewWithClaims(method, claims)\<close> followed by \<^verbatim>\<open>SignedString(key)\<close> with an HMAC
  method and a byte-slice key: it cannot fail.
\<close>

definition SignedString :: "string \<Rightarrow> TokenClaims \<Rightarrow> string \<Rightarrow> error + TokenString" where
  "SignedString alg claims key = Inr (JWT (Some alg) claims (HMACSig alg key (Some alg) claims))"

section \<open>Token service (service package)\<close>

record tokenService =
  secretKey :: string
  accessExpiry :: duration
  refreshExpiry :: duration

definition GenerateAccessToken ::
  "tokenService \<Rightarrow> time \<Rightarrow> string \<Rightarrow> string \<Rightarrow> string \<Rightarrow> error + TokenString" where
  "GenerateAccessToken s now userID email role =
     SignedString ''HS256''
       \<lparr> ClaimsUserID = userID,
         ClaimsEmail = email,
         ClaimsRole = role,
         ClaimsTokenType = TokenTypeAccess,
         ClaimsExpiresAt = Some (NewNumericDate (now + accessExpiry s)),
         ClaimsIssuedAt = Some (NewNumericDate now),
         ClaimsNotBefore = Some (NewNumericDate now),
         ClaimsSubject = userID \<rparr>
       (secretKey s)"

definition GenerateRefreshToken ::
  "tokenService \<Rightarrow> time \<Rightarrow> string \<Rightarrow> string \<Rightarrow> string \<Rightarrow> error + TokenString" where
  "GenerateRefreshToken s now userID email role =
     SignedString ''HS256''
       \<lparr> ClaimsUserID = userID,
         ClaimsEmail = email,
         ClaimsRole = role,
         ClaimsTokenType = TokenTypeRefresh,
         ClaimsExpiresAt = Some (NewNumericDate (now + refreshExpiry s)),
         ClaimsIssuedAt = Some (NewNumericDate now),
         ClaimsNotBefore = Some (NewNumericDate now),
         ClaimsSubject = userID \<rparr>
       (secretKey s)"

text \<open>The key function passed by \<^verbatim>\<open>validateToken\<close>: only an HMAC method gets the key.\<close>

definition keyFunc :: "tokenService \<Rightarrow> string option \<Rightarrow> SigningMethod \<Rightarrow> error + string" where
  "keyFunc s alg method =
     (case method of
        SigningMethodHMAC name \<Rightarrow> Inr (secretKey s)
      | _ \<Rightarrow> Inl (Err (''unexpected signing method: '' @ (case alg of Some a \<Rightarrow> a | None \<Rightarrow> []))))"

definition validateToken ::
  "tokenService \<Rightarrow> time \<Rightarrow> TokenString \<Rightarrow> TokenType \<Rightarrow> error + TokenClaims" where
  "validateToken s now tokenString expectedType =
     (case ParseWithClaims now tokenString (keyFunc s) of
        Inl err \<Rightarrow> Inl (Wrap ''failed to parse token'' err)
      | Inr (claims, valid) \<Rightarrow>
          if \<not> valid then Inl (Err ''invalid token claims'')
          else if ClaimsTokenType claims \<noteq> expectedType
            then Inl (Err (''invalid token type: expected '' @ expectedType @ '', got '' @
                           ClaimsTokenType claims))
          else Inr claims)"

definition ValidateAccessToken :: "tokenService \<Rightarrow> time \<Rightarrow> TokenString \<Rightarrow> error + TokenClaims" where
  "ValidateAccessToken s now tokenString = validateToken s now tokenString TokenTypeAccess"

definition ValidateRefreshToken :: "tokenService \<Rightarrow> time \<Rightarrow> TokenString \<Rightarrow> error + TokenClaims" where
  "ValidateRefreshToken s now tokenString = validateToken s now tokenString TokenTypeRefresh"

definition GetTokenExpiration :: "tokenService \<Rightarrow> TokenType \<Rightarrow> duration" where
  "GetTokenExpiration s tokenType =
     (if tokenType = TokenTypeAccess then accessExpiry s
      else if tokenType = TokenTypeRefresh then refreshExpiry s
      else accessExpiry s)"

section \<open>The relational store (postgres package)\<close>

text \<open>
  The database is its two tables, in insertion order. What it enforces comes from the
  column tags of the entities: \<^verbatim>\<open>users.id\<close> and \<^verbatim>\<open>tokens.id\<close> are primary keys,
  \<^verbatim>\<open>users.email\<close> and \<^verbatim>\<open>tokens.refresh_token\<close> carry a unique index, and string
  comparison in a \<^verbatim>\<open>WHERE\<close> clause is byte equality.

  Every repository method returns the driver's error when the statement fails. Which
  statements fail during one call of a use case is part of that call's environment
  (\<open>Faults\<close>), together with the clock reading (\<open>Now\<close>), the UUIDs drawn for a new
  user and a new session and the salt drawn by bcrypt. A statement that fails changes
  nothing.
\<close>

record DB =
  users :: "User list"
  tokens :: "Token list"

datatype dbOp =
    UserCreate
  | UserFindByID
  | UserFindByEmail
  | UserFindByProviderID
  | UserUpdate
  | UserEmailExists
  | TokenCreate
  | TokenDeleteByRefreshToken
  | TokenRevokeAllUserTokens
  | TokenIsTokenValid

record Env =
  Now :: time
  Faults :: "dbOp set"
  UserUUID :: string
  TokenUUID :: string
  Salt :: string

definition ErrDriver :: error where
  "ErrDriver = Err ''driver: bad connection''"

definition ErrDuplicatedKey :: error where
  "ErrDuplicatedKey = Err ''duplicate key value violates unique constraint''"

text \<open>
  The zero \<^verbatim>\<open>time.Time\<close> (1 January of year 1), which GORM replaces by the current time
  in \<^verbatim>\<open>CreatedAt\<close> and \<^verbatim>\<open>UpdatedAt\<close> on insertion.
\<close>

definition zeroTime :: time where
  "zeroTime = - 62135596800 * Second"

text \<open>
  GORM's \<^verbatim>\<open>First\<close>: of the rows that satisfy the condition, the one with the least
  primary key.
\<close>

definition First :: "('a \<Rightarrow> string) \<Rightarrow> ('a \<Rightarrow> bool) \<Rightarrow> 'a list \<Rightarrow> 'a option" where
  "First pk cond rows =
     (case filter cond rows of
        [] \<Rightarrow> None
      | r # rs \<Rightarrow> Some (fold (\<lambda>x best. if pk x < pk best then x else best) rs r))"

subsection \<open>userRepository\<close>

definition userCreate :: "Env \<Rightarrow> User \<Rightarrow> DB \<Rightarrow> error + DB" where
  "userCreate env user db =
     (if UserCreate \<in> Faults env then Inl (Wrap ''failed to create user'' ErrDriver)
      else if \<exists>u \<in> set (users db). ID u = ID user \<or> Email u = Email user
        then Inl (Wrap ''failed to create user'' ErrDuplicatedKey)
      else Inr (db\<lparr>users := users db @ [user]\<rparr>))"

definition FindByID :: "Env \<Rightarrow> string \<Rightarrow> DB \<Rightarrow> error + User option" where
  "FindByID env userID db =
     (if UserFindByID \<in> Faults env then Inl (Wrap ''failed to find user by ID'' ErrDriver)
      else Inr (First ID (\<lambda>u. ID u = userID) (users db)))"

definition FindByEmail :: "Env \<Rightarrow> string \<Rightarrow> DB \<Rightarrow> error + User option" where
  "FindByEmail env email db =
     (if UserFindByEmail \<in> Faults env then Inl (Wrap ''failed to find user by email'' ErrDriver)
      else Inr (First ID (\<lambda>u. Email u = email) (users db)))"

definition FindByProviderID :: "Env \<Rightarrow> Provider \<Rightarrow> string \<Rightarrow> DB \<Rightarrow> error + User option" where
  "FindByProviderID env provider providerID db =
     (if UserFindByProviderID \<in> Faults env
        then Inl (Wrap ''failed to find user by provider ID'' ErrDriver)
      else Inr (First ID (\<lambda>u. Provider u = provider \<and> ProviderID u = Some providerID) (users db)))"

text \<open>
  \<^verbatim>\<open>Update\<close> is GORM's \<^verbatim>\<open>Save\<close>: it writes every column of the row with the user's
  primary key, setting \<^verbatim>\<open>updated_at\<close> to the current time, and inserts the row when
  there is none.
\<close>

definition userUpdate :: "Env \<Rightarrow> User \<Rightarrow> DB \<Rightarrow> error + DB" where
  "userUpdate env user db =
     (if UserUpdate \<in> Faults env then Inl (Wrap ''failed to update user'' ErrDriver)
      else if \<exists>u \<in> set (users db). ID u \<noteq> ID user \<and> Email u = Email user
        then Inl (Wrap ''failed to update user'' ErrDuplicatedKey)
      else let saved = user\<lparr>UpdatedAt := Now env\<rparr>
           in if \<exists>u \<in> set (users db). ID u = ID user
              then Inr (db\<lparr>users := map (\<lambda>u. if ID u = ID user then saved else u) (users db)\<rparr>)
              else Inr (db\<lparr>users := users db @ [saved]\<rparr>))"

definition EmailExists :: "Env \<Rightarrow> string \<Rightarrow> DB \<Rightarrow> error + bool" where
  "EmailExists env email db =
     (if UserEmailExists \<in> Faults env
        then Inl (Wrap ''failed to check email existence'' ErrDriver)
      else Inr (length (filter (\<lambda>u. Email u = email) (users db)) > 0))"

subsection \<open>tokenRepository\<close>

text \<open>
  On insertion an empty \<^verbatim>\<open>id\<close> is filled by the column default
  \<^verbatim>\<open>gen_random_uuid()\<close> and zero timestamps by the current time.
\<close>

definition tokenCreate :: "Env \<Rightarrow> Token \<Rightarrow> DB \<Rightarrow> error + DB" where
  "tokenCreate env token db =
     (if TokenCreate \<in> Faults env then Inl (Wrap ''failed to create token'' ErrDriver)
      else let row = token
                 \<lparr> TokenID := (if TokenID token = [] then TokenUUID env else TokenID token),
                   TokenCreatedAt :=
                     (if TokenCreatedAt token = zeroTime then Now env else TokenCreatedAt token),
                   TokenUpdatedAt :=
                     (if TokenUpdatedAt token = zeroTime then Now env else TokenUpdatedAt token) \<rparr>
           in if \<exists>t \<in> set (tokens db). TokenID t = TokenID row \<or> RefreshToken t = RefreshToken row
              then Inl (Wrap ''failed to create token'' ErrDuplicatedKey)
              else Inr (db\<lparr>tokens := tokens db @ [row]\<rparr>))"

definition DeleteByRefreshToken :: "Env \<Rightarrow> TokenString \<Rightarrow> DB \<Rightarrow> error + DB" where
  "DeleteByRefreshToken env refreshToken db =
     (if TokenDeleteByRefreshToken \<in> Faults env
        then Inl (Wrap ''failed to delete token by refresh token'' ErrDriver)
      else Inr (db\<lparr>tokens := filter (\<lambda>t. RefreshToken t \<noteq> refreshToken) (tokens db)\<rparr>))"

definition RevokeAllUserTokens :: "Env \<Rightarrow> string \<Rightarrow> DB \<Rightarrow> error + DB" where
  "RevokeAllUserTokens env userID db =
     (if TokenRevokeAllUserTokens \<in> Faults env
        then Inl (Wrap ''failed to revoke all user tokens'' ErrDriver)
      else Inr (db\<lparr>tokens :=
                  map (\<lambda>t. if TokenUserID t = userID
                           then t\<lparr>ExpiresAt := Now env - 1 * Hour, TokenUpdatedAt := Now env\<rparr>
                           else t)
                      (tokens db)\<rparr>))"

definition IsTokenValid :: "Env \<Rightarrow> TokenString \<Rightarrow> DB \<Rightarrow> error + bool" where
  "IsTokenValid env refreshToken db =
     (if TokenIsTokenValid \<in> Faults env
        then Inl (Wrap ''failed to check token validity'' ErrDriver)
      else Inr (length (filter (\<lambda>t. RefreshToken t = refreshToken \<and> ExpiresAt t > Now env)
                               (tokens db)) > 0))"

section \<open>Requests and responses (dto package)\<close>

record RegisterRequest =
  RegisterEmail :: string
  RegisterPassword :: string
  RegisterName :: string

record LoginRequest =
  LoginEmail :: string
  LoginPassword :: string

record RefreshTokenRequest =
  RequestRefreshToken :: TokenString

record GoogleUserInfo =
  GoogleID :: string
  GoogleEmail :: string
  GoogleName :: string
  GoogleAvatar :: string
  VerifiedEmail :: bool

text \<open>The two timestamps of a user response are kept as times, not formatted.\<close>

record UserResponse =
  ResponseID :: string
  ResponseEmail :: string
  ResponseName :: string
  ResponseRole :: string
  ResponseProvider :: string
  ResponseAvatar :: "string option"
  ResponseEmailVerified :: bool
  ResponseCreatedAt :: time
  ResponseUpdatedAt :: time

record AuthResponse =
  ResponseUser :: UserResponse
  AccessToken :: TokenString
  ResponseRefreshToken :: TokenString
  ResponseTokenType :: string
  ExpiresIn :: int

definition isGoogleAvatar :: "string \<Rightarrow> bool" where
  "isGoogleAvatar avatarURL =
     (Contains avatarURL ''googleusercontent.com'' \<or> Contains avatarURL ''lh3.googleusercontent.com'')"

definition ToUserResponse :: "User \<Rightarrow> UserResponse" where
  "ToUserResponse user =
     \<lparr> ResponseID = ID user,
       ResponseEmail = Email user,
       ResponseName = Name user,
       ResponseRole = Role user,
       ResponseProvider = Provider user,
       ResponseAvatar =
         (case Avatar user of
            None \<Rightarrow> None
          | Some a \<Rightarrow> if isGoogleAvatar a then Some a else Some (''/api/v1/users/avatar/'' @ ID user)),
       ResponseEmailVerified = EmailVerified user,
       ResponseCreatedAt = CreatedAt user,
       ResponseUpdatedAt = UpdatedAt user \<rparr>"

definition ToAuthResponse :: "User \<Rightarrow> TokenString \<Rightarrow> TokenString \<Rightarrow> int \<Rightarrow> AuthResponse" where
  "ToAuthResponse user accessToken refreshToken expiresIn =
     \<lparr> ResponseUser = ToUserResponse user,
       AccessToken = accessToken,
       ResponseRefreshToken = refreshToken,
       ResponseTokenType = ''Bearer'',
       ExpiresIn = expiresIn \<rparr>"

text \<open>\<^verbatim>\<open>int64(d.Seconds())\<close>: the whole seconds of a duration, rounded towards zero.\<close>

definition Seconds :: "duration \<Rightarrow> int" where
  "Seconds d = (if 0 \<le> d then d div Second else - ((- d) div Second))"

section \<open>Use cases (usecase package)\<close>

text \<open>
  Each \<^verbatim>\<open>Execute\<close> returns its result together with the database it leaves behind. All
  clock readings of one call are the one reading \<open>Now env\<close>.
\<close>

subsection \<open>RegisterUseCase\<close>

definition RegisterExecute ::
  "passwordService \<Rightarrow> tokenService \<Rightarrow> Env \<Rightarrow> RegisterRequest \<Rightarrow> DB \<Rightarrow> (error + AuthResponse) \<times> DB" where
  "RegisterExecute ps ts env req db =
     (case EmailExists env (RegisterEmail req) db of
        Inl err \<Rightarrow> (Inl (Wrap ''failed to check email existence'' err), db)
      | Inr exists \<Rightarrow>
          if exists then (Inl (Err ''email already exists''), db)
          else
            (case HashPassword ps (Salt env) (RegisterPassword req) of
               Inl err \<Rightarrow> (Inl (Wrap ''failed to hash password'' err), db)
             | Inr hashedPassword \<Rightarrow>
                 let user = SetPassword (Now env) hashedPassword
                              (NewUser (UserUUID env) (Now env) (RegisterEmail req) (RegisterName req)
                                 RoleUser)
                 in (case Validate user of
                       Some err \<Rightarrow> (Inl (Wrap ''invalid user data'' err), db)
                     | None \<Rightarrow>
                         (case userCreate env user db of
                            Inl err \<Rightarrow> (Inl (Wrap ''failed to create user'' err), db)
                          | Inr db1 \<Rightarrow>
                              (case GenerateAccessToken ts (Now env) (ID user) (Email user) (Role user) of
                                 Inl err \<Rightarrow> (Inl (Wrap ''failed to generate access token'' err), db1)
                               | Inr accessToken \<Rightarrow>
                                   (case GenerateRefreshToken ts (Now env) (ID user) (Email user)
                                           (Role user) of
                                      Inl err \<Rightarrow>
                                        (Inl (Wrap ''failed to generate refresh token'' err), db1)
                                    | Inr refreshToken \<Rightarrow>
                                        (Inr (ToAuthResponse user accessToken refreshToken
                                                (Seconds (GetTokenExpiration ts TokenTypeAccess))),
                                         db1)))))))"

subsection \<open>LoginUseCase\<close>

text \<open>
  The error of \<^verbatim>\<open>RevokeAllUserTokens\<close> is tested by an \<^verbatim>\<open>if\<close> whose body is empty
  ("Log error but don't fail login"): the call goes on with the database as the failed
  statement left it.
\<close>

definition LoginExecute ::
  "passwordService \<Rightarrow> tokenService \<Rightarrow> Env \<Rightarrow> LoginRequest \<Rightarrow> DB \<Rightarrow> (error + AuthResponse) \<times> DB" where
  "LoginExecute ps ts env req db =
     (case FindByEmail env (LoginEmail req) db of
        Inl err \<Rightarrow> (Inl (Wrap ''failed to find user'' err), db)
      | Inr None \<Rightarrow> (Inl (Err ''invalid credentials''), db)
      | Inr (Some user) \<Rightarrow>
          if IsOAuthUser user then (Inl (Err ''please use OAuth login for this account''), db)
          else
            (case Password user of
               None \<Rightarrow> (Inl (Err ''invalid credentials''), db)
             | Some hash \<Rightarrow>
                 (case VerifyPassword ps (LoginPassword req) hash of
                    Some err \<Rightarrow> (Inl (Err ''invalid credentials''), db)
                  | None \<Rightarrow>
                      let db1 = (case RevokeAllUserTokens env (ID user) db of
                                   Inl err \<Rightarrow> db
                                 | Inr revoked \<Rightarrow> revoked)
                      in (case GenerateAccessToken ts (Now env) (ID user) (Email user) (Role user) of
                            Inl err \<Rightarrow> (Inl (Wrap ''failed to generate access token'' err), db1)
                          | Inr accessToken \<Rightarrow>
                              (case GenerateRefreshToken ts (Now env) (ID user) (Email user)
                                      (Role user) of
                                 Inl err \<Rightarrow> (Inl (Wrap ''failed to generate refresh token'' err), db1)
                               | Inr refreshToken \<Rightarrow>
                                   let refreshTokenEntity =
                                         \<lparr> TokenID = [],
                                           TokenUserID = ID user,
                                           RefreshToken = refreshToken,
                                           ExpiresAt = Now env + GetTokenExpiration ts TokenTypeRefresh,
                                           TokenCreatedAt = zeroTime,
                                           TokenUpdatedAt = zeroTime \<rparr>
                                   in (case tokenCreate env refreshTokenEntity db1 of
                                         Inl err \<Rightarrow>
                                           (Inl (Wrap ''failed to store refresh token'' err), db1)
                                       | Inr db2 \<Rightarrow>
                                           (Inr (ToAuthResponse user accessToken refreshToken
                                                   (Seconds (GetTokenExpiration ts TokenTypeAccess))),
                                            db2)))))))"

subsection \<open>RefreshTokenUseCase\<close>

definition RefreshExecute ::
  "tokenService \<Rightarrow> Env \<Rightarrow> RefreshTokenRequest \<Rightarrow> DB \<Rightarrow> (error + AuthResponse) \<times> DB" where
  "RefreshExecute ts env req db =
     (case ValidateRefreshToken ts (Now env) (RequestRefreshToken req) of
        Inl err \<Rightarrow> (Inl (Wrap ''invalid refresh token'' err), db)
      | Inr claims \<Rightarrow>
          (case IsTokenValid env (RequestRefreshToken req) db of
             Inl err \<Rightarrow> (Inl (Wrap ''failed to validate refresh token'' err), db)
           | Inr isValid \<Rightarrow>
               if \<not> isValid then (Inl (Err ''refresh token has been revoked or expired''), db)
               else
                 (case FindByID env (ClaimsUserID claims) db of
                    Inl err \<Rightarrow> (Inl (Wrap ''failed to find user'' err), db)
                  | Inr None \<Rightarrow> (Inl (Err ''user not found''), db)
                  | Inr (Some user) \<Rightarrow>
                      (case DeleteByRefreshToken env (RequestRefreshToken req) db of
                         Inl err \<Rightarrow> (Inl (Wrap ''failed to delete old refresh token'' err), db)
                       | Inr db1 \<Rightarrow>
                           (case GenerateAccessToken ts (Now env) (ID user) (Email user) (Role user) of
                              Inl err \<Rightarrow> (Inl (Wrap ''failed to generate access token'' err), db1)
                            | Inr accessToken \<Rightarrow>
                                (case GenerateRefreshToken ts (Now env) (ID user) (Email user)
                                        (Role user) of
                                   Inl err \<Rightarrow>
                                     (Inl (Wrap ''failed to generate refresh token'' err), db1)
                                 | Inr newRefreshToken \<Rightarrow>
                                     let refreshTokenEntity =
                                           NewToken (TokenUUID env) (Now env) (ID user) newRefreshToken
                                             (Now env + GetTokenExpiration ts TokenTypeRefresh)
                                     in (case tokenCreate env refreshTokenEntity db1 of
                                           Inl err \<Rightarrow>
                                             (Inl (Wrap ''failed to store new refresh token'' err), db1)
                                         | Inr db2 \<Rightarrow>
                                             (Inr (ToAuthResponse user accessToken newRefreshToken
                                                     (Seconds (GetTokenExpiration ts TokenTypeAccess))),
                                              db2))))))))"

subsection \<open>GoogleAuthUseCase\<close>

text \<open>
  \<^verbatim>\<open>Execute\<close> is three consecutive blocks, each of which may return early. The first
  looks the user up by the Google ID and, failing that, by the email as Google gave it,
  merging the Google identity into a user found by email under another provider. It
  yields the user found, if any.
\<close>

definition GoogleAuthFind ::
  "Env \<Rightarrow> GoogleUserInfo \<Rightarrow> DB \<Rightarrow> (error \<times> DB) + (User option \<times> DB)" where
  "GoogleAuthFind env googleUser db =
     (case FindByProviderID env ProviderGoogle (GoogleID googleUser) db of
        Inl err \<Rightarrow> Inl (Wrap ''failed to find user by provider ID'' err, db)
      | Inr (Some user) \<Rightarrow> Inr (Some user, db)
      | Inr None \<Rightarrow>
          (case FindByEmail env (GoogleEmail googleUser) db of
             Inl err \<Rightarrow> Inl (Wrap ''failed to find user by email'' err, db)
           | Inr None \<Rightarrow> Inr (None, db)
           | Inr (Some user) \<Rightarrow>
               if Provider user \<noteq> ProviderGoogle
               then let merged = user
                          \<lparr> Provider := ProviderGoogle,
                            ProviderID := Some (GoogleID googleUser),
                            Avatar := (if GoogleAvatar googleUser \<noteq> []
                                       then Some (GoogleAvatar googleUser) else Avatar user),
                            EmailVerified := True,
                            UpdatedAt := Now env \<rparr>
                    in (case userUpdate env merged db of
                          Inl err \<Rightarrow> Inl (Wrap ''failed to merge user account'' err, db)
                        | Inr db1 \<Rightarrow> Inr (Some merged, db1))
               else Inr (Some user, db)))"

text \<open>The second block creates the user when the first found none.\<close>

definition GoogleAuthCreate ::
  "Env \<Rightarrow> GoogleUserInfo \<Rightarrow> User option \<Rightarrow> DB \<Rightarrow> (error \<times> DB) + (User \<times> DB)" where
  "GoogleAuthCreate env googleUser found db =
     (case found of
        Some user \<Rightarrow> Inr (user, db)
      | None \<Rightarrow>
          let avatar = (if GoogleAvatar googleUser \<noteq> [] then Some (GoogleAvatar googleUser) else None);
              user = NewOAuthUser (UserUUID env) (Now env) (GoogleEmail googleUser)
                       (GoogleName googleUser) (GoogleID googleUser) ProviderGoogle avatar
          in (case Validate user of
                Some err \<Rightarrow> Inl (Wrap ''invalid user data'' err, db)
              | None \<Rightarrow>
                  (case userCreate env user db of
                     Inl err \<Rightarrow> Inl (Wrap ''failed to create user'' err, db)
                   | Inr db1 \<Rightarrow> Inr (user, db1))))"

text \<open>
  The third block revokes the user's sessions, ignoring the error of the revocation
  ("Log error but don't fail login"), and issues and stores the new tokens.
\<close>

definition GoogleAuthIssue ::
  "tokenService \<Rightarrow> Env \<Rightarrow> User \<Rightarrow> DB \<Rightarrow> (error + AuthResponse) \<times> DB" where
  "GoogleAuthIssue ts env user db =
     (let db1 = (case RevokeAllUserTokens env (ID user) db of
                   Inl err \<Rightarrow> db
                 | Inr revoked \<Rightarrow> revoked)
      in (case GenerateAccessToken ts (Now env) (ID user) (Email user) (Role user) of
            Inl err \<Rightarrow> (Inl (Wrap ''failed to generate access token'' err), db1)
          | Inr accessToken \<Rightarrow>
              (case GenerateRefreshToken ts (Now env) (ID user) (Email user) (Role user) of
                 Inl err \<Rightarrow> (Inl (Wrap ''failed to generate refresh token'' err), db1)
               | Inr refreshToken \<Rightarrow>
                   let refreshTokenEntity =
                         NewToken (TokenUUID env) (Now env) (ID user) refreshToken
                           (Now env + GetTokenExpiration ts TokenTypeRefresh)
                   in (case tokenCreate env refreshTokenEntity db1 of
                         Inl err \<Rightarrow> (Inl (Wrap ''failed to store refresh token'' err), db1)
                       | Inr db2 \<Rightarrow>
                           (Inr (ToAuthResponse user accessToken refreshToken
                                   (Seconds (GetTokenExpiration ts TokenTypeAccess))),
                            db2)))))"

definition GoogleAuthExecute ::
  "tokenService \<Rightarrow> Env \<Rightarrow> GoogleUserInfo option \<Rightarrow> DB \<Rightarrow> (error + AuthResponse) \<times> DB" where
  "GoogleAuthExecute ts env googleUser db =
     (case googleUser of
        None \<Rightarrow> (Inl (Err ''google user info is required''), db)
      | Some g \<Rightarrow>
          if \<not> VerifiedEmail g then (Inl (Err ''email is not verified''), db)
          else
            (case GoogleAuthFind env g db of
               Inl (err, db1) \<Rightarrow> (Inl err, db1)
             | Inr (found, db1) \<Rightarrow>
                 (case GoogleAuthCreate env g found db1 of
                    Inl (err, db2) \<Rightarrow> (Inl err, db2)
                  | Inr (user, db2) \<Rightarrow> GoogleAuthIssue ts env user db2)))"

subsection \<open>LogoutUseCase\<close>

definition LogoutExecute :: "Env \<Rightarrow> TokenString \<Rightarrow> DB \<Rightarrow> error option \<times> DB" where
  "LogoutExecute env refreshToken db =
     (case DeleteByRefreshToken env refreshToken db of
        Inl err \<Rightarrow> (Some (Wrap ''failed to delete refresh token'' err), db)
      | Inr db1 \<Rightarrow> (None, db1))"

definition LogoutExecuteAll :: "Env \<Rightarrow> string \<Rightarrow> DB \<Rightarrow> error option \<times> DB" where
  "LogoutExecuteAll env userID db =
     (case RevokeAllUserTokens env userID db of
        Inl err \<Rightarrow> (Some (Wrap ''failed to revoke all user tokens'' err), db)
      | Inr db1 \<Rightarrow> (None, db1))"

section \<open>Example data\<close>

text \<open>
  A token service with the documented lifetimes (15 minutes and 7 days), environments
  that differ in clock, failing statements and the names drawn, and a database holding
  one local user with one session.
\<close>

definition exampleService :: tokenService where
  "exampleService =
     \<lparr> secretKey = ''secret'', accessExpiry = 900 * Second, refreshExpiry = 604800 * Second \<rparr>"

definition exampleEnv :: "time \<Rightarrow> dbOp set \<Rightarrow> string \<Rightarrow> Env" where
  "exampleEnv t faults n =
     \<lparr> Now = t, Faults = faults, UserUUID = ''user-'' @ n, TokenUUID = ''token-'' @ n,
       Salt = ''salt-'' @ n \<rparr>"

definition issued :: "error + TokenString \<Rightarrow> TokenString" where
  "issued r = (case r of Inl err \<Rightarrow> Malformed [] | Inr tok \<Rightarrow> tok)"

definition exampleUser :: User where
  "exampleUser =
     \<lparr> ID = ''user-1'', Email = ''u@x.com'',
       Password = Some (Bcrypt 10 ''salt-1'' (eksKey ''password1'')),
       Name = ''U1'', Role = RoleUser, Provider = ProviderLocal, ProviderID = None,
       Avatar = None, EmailVerified = False,
       CreatedAt = 1000 * Second, UpdatedAt = 1000 * Second \<rparr>"

definition exampleRefreshToken :: TokenString where
  "exampleRefreshToken =
     issued (GenerateRefreshToken exampleService (2000 * Second) ''user-1'' ''u@x.com'' ''USER'')"

definition exampleSession :: Token where
  "exampleSession =
     \<lparr> TokenID = ''token-1'', TokenUserID = ''user-1'',
       RefreshToken = exampleRefreshToken,
       ExpiresAt = 2000 * Second + 604800 * Second,
       TokenCreatedAt = 2000 * Second, TokenUpdatedAt = 2000 * Second \<rparr>"

definition exampleDB :: DB where
  "exampleDB = \<lparr> users = [exampleUser], tokens = [exampleSession] \<rparr>"

definition emptyDB :: DB where
  "emptyDB = \<lparr> users = [], tokens = [] \<rparr>"

text \<open>The same database after the user's row has been deleted: the session is orphaned.\<close>

definition orphanDB :: DB where
  "orphanDB = \<lparr> users = [], tokens = [exampleSession] \<rparr>"

text \<open>A first registration on the empty database, and the refresh token it returns.\<close>

definition registered :: "(error + AuthResponse) \<times> DB" where
  "registered =
     RegisterExecute NewPasswordService exampleService (exampleEnv (2000 * Second) {} ''1'')
       \<lparr> RegisterEmail = ''a@b.com'', RegisterPassword = ''password1'', RegisterName = ''U1'' \<rparr>
       emptyDB"

definition registeredRefreshToken :: TokenString where
  "registeredRefreshToken =
     (case fst registered of Inl err \<Rightarrow> Malformed [] | Inr response \<Rightarrow> ResponseRefreshToken response)"

text \<open>
  The local user with an avatar of their own, and what Google reports for the same email
  address.
\<close>

definition avatarUser :: User where
  "avatarUser = exampleUser\<lparr>Avatar := Some ''avatars/user-1.png''\<rparr>"

definition avatarDB :: DB where
  "avatarDB = \<lparr> users = [avatarUser], tokens = [] \<rparr>"

definition googleInfo :: GoogleUserInfo where
  "googleInfo =
     \<lparr> GoogleID = ''g1'', GoogleEmail = ''u@x.com'', GoogleName = ''U1'',
       GoogleAvatar = ''https://lh3.googleusercontent.com/a/new'', VerifiedEmail = True \<rparr>"

text \<open>A user already linked to Google, with one session, and what Google reports for them.\<close>

definition linkedUser :: User where
  "linkedUser =
     \<lparr> ID = ''user-9'', Email = ''g@x.com'', Password = None,
       Name = ''G9'', Role = RoleUser, Provider = ProviderGoogle, ProviderID = Some ''g9'',
       Avatar = None, EmailVerified = True,
       CreatedAt = 1000 * Second, UpdatedAt = 1000 * Second \<rparr>"

definition linkedSession :: Token where
  "linkedSession =
     \<lparr> TokenID = ''token-9'', TokenUserID = ''user-9'',
       RefreshToken =
         issued (GenerateRefreshToken exampleService (2000 * Second) ''user-9'' ''g@x.com'' ''USER''),
       ExpiresAt = 2000 * Second + 604800 * Second,
       TokenCreatedAt = 2000 * Second, TokenUpdatedAt = 2000 * Second \<rparr>"

definition linkedDB :: DB where
  "linkedDB = \<lparr> users = [linkedUser], tokens = [linkedSession] \<rparr>"

definition linkedInfo :: GoogleUserInfo where
  "linkedInfo =
     \<lparr> GoogleID = ''g9'', GoogleEmail = ''g@x.com'', GoogleName = ''G9'',
       GoogleAvatar = [], VerifiedEmail = True \<rparr>"

text \<open>
  A login of the example user two tenths of a second after the clock second 3000 began,
  and the refresh token it returns.
\<close>

definition loggedIn :: "(error + AuthResponse) \<times> DB" where
  "loggedIn =
     LoginExecute NewPasswordService exampleService
       (exampleEnv (3000 * Second + 200000000) {} ''2'')
       \<lparr> LoginEmail = ''u@x.com'', LoginPassword = ''password1'' \<rparr> exampleDB"

definition loggedInRefreshToken :: TokenString where
  "loggedInRefreshToken =
     (case fst loggedIn of Inl err \<Rightarrow> Malformed [] | Inr response \<Rightarrow> ResponseRefreshToken response)"

text \<open>Both users, each with their session.\<close>

definition twoSessionDB :: DB where
  "twoSessionDB = \<lparr> users = [exampleUser, linkedUser], tokens = [exampleSession, linkedSession] \<rparr>"

section \<open>Token validation\<close>

lemma validateToken_Inr_type:
  "validateToken ts now tok expected = Inr c \<Longrightarrow> ClaimsTokenType c = expected"
  by (auto simp: validateToken_def split: sum.splits if_splits prod.splits)

lemma validateToken_Inr_claims:
  "validateToken ts now (JWT alg claims sig) expected = Inr c \<Longrightarrow> c = claims"
  by (auto simp: validateToken_def ParseWithClaims_def
      split: sum.splits if_splits prod.splits option.splits)

lemma validateToken_wrong_kind:
  assumes "ClaimsTokenType claims \<noteq> expected"
  shows "isl (validateToken ts now (JWT alg claims sig) expected)"
proof (cases "validateToken ts now (JWT alg claims sig) expected")
  case (Inl err)
  then show ?thesis by simp
next
  case (Inr c)
  with validateToken_Inr_type [OF Inr] validateToken_Inr_claims [OF Inr] assms
  show ?thesis by simp
qed

text \<open>
  C7: a token issued as a refresh token never validates as an access token, and a token
  issued as an access token never validates as a refresh token, whatever the validating
  service's key and the time of validation: the validator returns an error.
\<close>

theorem C7_token_kind_isolation:
  assumes "GenerateRefreshToken ts t userID email role = Inr refreshToken"
    and "GenerateAccessToken ts t userID email role = Inr accessToken"
  shows "isl (ValidateAccessToken ts' t' refreshToken) \<and>
         isl (ValidateRefreshToken ts' t' accessToken)"
proof -
  have "isl (ValidateAccessToken ts' t' refreshToken)"
    using assms(1)
    by (auto simp: GenerateRefreshToken_def SignedString_def ValidateAccessToken_def
        TokenTypeAccess_def TokenTypeRefresh_def intro!: validateToken_wrong_kind)
  moreover have "isl (ValidateRefreshToken ts' t' accessToken)"
    using assms(2)
    by (auto simp: GenerateAccessToken_def SignedString_def ValidateRefreshToken_def
        TokenTypeAccess_def TokenTypeRefresh_def intro!: validateToken_wrong_kind)
  ultimately show ?thesis ..
qed

theorem C7_token_kind_isolation_witness:
  "isl (ValidateAccessToken exampleService (2001 * Second) exampleRefreshToken) \<and>
   isl (ValidateRefreshToken exampleService (2001 * Second)
          (issued (GenerateAccessToken exampleService (2000 * Second) ''user-1'' ''u@x.com'' ''USER'')))"
proof -
  have r: "GenerateRefreshToken exampleService (2000 * Second) ''user-1'' ''u@x.com'' ''USER'' =
           Inr exampleRefreshToken"
    by (simp add: exampleRefreshToken_def issued_def GenerateRefreshToken_def SignedString_def)
  have a: "GenerateAccessToken exampleService (2000 * Second) ''user-1'' ''u@x.com'' ''USER'' =
           Inr (issued (GenerateAccessToken exampleService (2000 * Second) ''user-1'' ''u@x.com''
                  ''USER''))"
    by (simp add: issued_def GenerateAccessToken_def SignedString_def)
  show ?thesis using C7_token_kind_isolation [OF r a] .
qed

text \<open>
  When the refresh token is presented to the access-token validator of the service that
  issued it, within its lifetime, the error is the one of the kind check.
\<close>

lemma refresh_token_as_access_token:
  "ValidateAccessToken exampleService (2001 * Second) exampleRefreshToken =
     Inl (Err ''invalid token type: expected access, got refresh'')"
  by code_simp

text \<open>
  C9: a token whose header names any algorithm other than HS256, HS384 and HS512 (or
  none at all) fails both validators, whatever its claims and signature.
\<close>

theorem C9_non_hmac_alg_rejected:
  assumes "alg \<notin> {Some ''HS256'', Some ''HS384'', Some ''HS512''}"
  shows "isl (ValidateAccessToken ts now (JWT alg claims sig)) \<and>
         isl (ValidateRefreshToken ts now (JWT alg claims sig))"
proof -
  have "isl (ParseWithClaims now (JWT alg claims sig) (keyFunc ts))"
  proof (cases alg)
    case None
    then show ?thesis by (simp add: ParseWithClaims_def)
  next
    case (Some a)
    with assms have "a \<noteq> ''HS256''" "a \<noteq> ''HS384''" "a \<noteq> ''HS512''" by auto
    then have "GetSigningMethod a = None \<or>
               (\<exists>m. GetSigningMethod a = Some m \<and> (\<forall>n. m \<noteq> SigningMethodHMAC n))"
      by (simp add: GetSigningMethod_def)
    then show ?thesis using Some
      by (auto simp: ParseWithClaims_def keyFunc_def split: SigningMethod.splits)
  qed
  then show ?thesis
    by (auto simp: ValidateAccessToken_def ValidateRefreshToken_def validateToken_def
        split: sum.splits)
qed

theorem C9_non_hmac_alg_rejected_witness:
  "isl (ValidateAccessToken exampleService (2001 * Second)
          (JWT (Some ''none'')
             \<lparr> ClaimsUserID = ''user-1'', ClaimsEmail = ''u@x.com'', ClaimsRole = ''ADMIN'',
               ClaimsTokenType = TokenTypeAccess, ClaimsExpiresAt = None, ClaimsIssuedAt = None,
               ClaimsNotBefore = None, ClaimsSubject = ''user-1'' \<rparr>
             (OtherSignature []))) \<and>
   isl (ValidateRefreshToken exampleService (2001 * Second)
          (JWT (Some ''none'')
             \<lparr> ClaimsUserID = ''user-1'', ClaimsEmail = ''u@x.com'', ClaimsRole = ''ADMIN'',
               ClaimsTokenType = TokenTypeAccess, ClaimsExpiresAt = None, ClaimsIssuedAt = None,
               ClaimsNotBefore = None, ClaimsSubject = ''user-1'' \<rparr>
             (OtherSignature [])))"
proof -
  have h: "Some ''none'' \<notin> {Some ''HS256'', Some ''HS384'', Some ''HS512''}" by simp
  show ?thesis using C9_non_hmac_alg_rejected [OF h] by blast
qed

section \<open>Facts about the store\<close>

lemma fold_least_in_set:
  "fold (\<lambda>x best. if pk x < pk best then x else best) rs r \<in> set (r # rs)"
  by (induction rs arbitrary: r) auto

lemma First_SomeD:
  assumes "First pk cond rows = Some r"
  shows "r \<in> set rows \<and> cond r"
proof (cases "filter cond rows")
  case Nil
  with assms show ?thesis by (simp add: First_def)
next
  case (Cons x xs)
  with assms have "r \<in> set (x # xs)"
    using fold_least_in_set [of pk xs x] by (simp add: First_def)
  then have "r \<in> set (filter cond rows)" using Cons by simp
  then show ?thesis by simp
qed

lemma First_None_iff: "First pk cond rows = None \<longleftrightarrow> (\<forall>r \<in> set rows. \<not> cond r)"
proof -
  have "First pk cond rows = None \<longleftrightarrow> filter cond rows = []"
    by (simp add: First_def split: list.splits)
  then show ?thesis by (simp add: filter_empty_conv)
qed

lemma userUpdate_existing:
  assumes "UserUpdate \<notin> Faults env"
    and "\<forall>u \<in> set (users db). Email u = Email user \<longrightarrow> ID u = ID user"
    and "user \<in> set (users db)"
    and "ID merged = ID user" and "Email merged = Email user"
    and "merged\<lparr>UpdatedAt := Now env\<rparr> = merged"
  shows "userUpdate env merged db =
           Inr (db\<lparr>users := map (\<lambda>u. if ID u = ID user then merged else u) (users db)\<rparr>)"
proof -
  have a: "\<not> (\<exists>u \<in> set (users db). ID u \<noteq> ID merged \<and> Email u = Email merged)"
    using assms(2,4,5) by auto
  have b: "\<exists>u \<in> set (users db). ID u = ID merged"
    using assms(3,4) by auto
  show ?thesis
    unfolding userUpdate_def Let_def using assms(1) a b
    by (simp only: if_True if_False assms(4,6))
qed

lemma tokenCreate_users: "tokenCreate env tok d = Inr d' \<Longrightarrow> users d' = users d"
  by (auto simp: tokenCreate_def Let_def split: if_splits)

lemma tokenCreate_literal:
  assumes "TokenCreate \<notin> Faults env"
    and "\<forall>t \<in> set (tokens db). TokenID t \<noteq> TokenUUID env \<and> RefreshToken t \<noteq> refreshToken"
  shows "tokenCreate env
           \<lparr> TokenID = [], TokenUserID = userID, RefreshToken = refreshToken, ExpiresAt = expiresAt,
             TokenCreatedAt = zeroTime, TokenUpdatedAt = zeroTime \<rparr> db =
         Inr (db\<lparr>tokens := tokens db @
                    [NewToken (TokenUUID env) (Now env) userID refreshToken expiresAt]\<rparr>)"
  using assms by (auto simp: tokenCreate_def NewToken_def)

lemma tokenCreate_NewToken:
  assumes "TokenCreate \<notin> Faults env"
    and "\<forall>t \<in> set (tokens db). TokenID t \<noteq> TokenUUID env \<and> RefreshToken t \<noteq> refreshToken"
  shows "tokenCreate env (NewToken (TokenUUID env) (Now env) userID refreshToken expiresAt) db =
         Inr (db\<lparr>tokens := tokens db @
                    [NewToken (TokenUUID env) (Now env) userID refreshToken expiresAt]\<rparr>)"
  using assms by (auto simp: tokenCreate_def NewToken_def)

lemma RevokeAllUserTokens_fault:
  "TokenRevokeAllUserTokens \<in> Faults env \<Longrightarrow>
   (case RevokeAllUserTokens env userID db of Inl err \<Rightarrow> db | Inr revoked \<Rightarrow> revoked) = db"
  by (simp add: RevokeAllUserTokens_def)

lemma IsTokenValid_TrueD:
  assumes "IsTokenValid env refreshToken db = Inr True"
  shows "\<exists>t \<in> set (tokens db). RefreshToken t = refreshToken"
proof -
  from assms
  have "filter (\<lambda>t. RefreshToken t = refreshToken \<and> ExpiresAt t > Now env) (tokens db) \<noteq> []"
    by (auto simp: IsTokenValid_def split: if_splits)
  then show ?thesis by (auto simp: filter_empty_conv)
qed

lemma IsTokenValid_absent:
  assumes "TokenIsTokenValid \<notin> Faults env"
    and "\<forall>t \<in> set (tokens db). RefreshToken t \<noteq> refreshToken"
  shows "IsTokenValid env refreshToken db = Inr False"
proof -
  have "filter (\<lambda>t. RefreshToken t = refreshToken \<and> ExpiresAt t > Now env) (tokens db) = []"
    using assms(2) by (auto simp: filter_empty_conv)
  then show ?thesis using assms(1) by (simp add: IsTokenValid_def)
qed

lemma DeleteByRefreshToken_ok:
  "TokenDeleteByRefreshToken \<notin> Faults env \<Longrightarrow>
   DeleteByRefreshToken env refreshToken db =
     Inr (db\<lparr>tokens := filter (\<lambda>t. RefreshToken t \<noteq> refreshToken) (tokens db)\<rparr>)"
  by (simp add: DeleteByRefreshToken_def)

lemma GenerateAccessToken_Inr: "\<exists>tok. GenerateAccessToken ts now userID email role = Inr tok"
  by (simp add: GenerateAccessToken_def SignedString_def)

section \<open>Registration\<close>

lemma Register_keeps_tokens:
  "tokens (snd (RegisterExecute ps ts env req db)) = tokens db"
  by (auto simp: RegisterExecute_def Let_def userCreate_def GenerateAccessToken_def
      GenerateRefreshToken_def SignedString_def split: sum.splits option.splits if_splits)

text \<open>
  C1: a registration on the empty database succeeds and returns a refresh token that
  passes the refresh-token validator, but it stores no session: the session table is
  still empty, and redeeming the returned token one second later fails with "refresh
  token has been revoked or expired".
\<close>

theorem C1_registered_token_not_redeemable:
  "\<not> isl (fst registered) \<and>
   tokens (snd registered) = [] \<and>
   \<not> isl (ValidateRefreshToken exampleService (2001 * Second) registeredRefreshToken) \<and>
   RefreshExecute exampleService (exampleEnv (2001 * Second) {} ''2'')
     \<lparr> RequestRefreshToken = registeredRefreshToken \<rparr> (snd registered) =
   (Inl (Err ''refresh token has been revoked or expired''), snd registered)"
  by code_simp

text \<open>
  C4: after \<^verbatim>\<open>a@b.com\<close> has registered, a registration of \<^verbatim>\<open>A@B.com\<close> passes the
  existence check, which compares the email as typed, and fails only when the row with
  the lowered email is inserted: the error is the store's duplicate-key error, not
  "email already exists". A registration of \<^verbatim>\<open>a@b.com\<close> itself is refused by the
  check.
\<close>

theorem C4_second_registration_in_other_case:
  "\<not> isl (fst registered) \<and>
   RegisterExecute NewPasswordService exampleService (exampleEnv (2001 * Second) {} ''2'')
     \<lparr> RegisterEmail = ''A@B.com'', RegisterPassword = ''password2'', RegisterName = ''U2'' \<rparr>
     (snd registered) =
   (Inl (Wrap ''failed to create user'' (Wrap ''failed to create user'' ErrDuplicatedKey)),
    snd registered) \<and>
   RegisterExecute NewPasswordService exampleService (exampleEnv (2001 * Second) {} ''2'')
     \<lparr> RegisterEmail = ''a@b.com'', RegisterPassword = ''password2'', RegisterName = ''U2'' \<rparr>
     (snd registered) =
   (Inl (Err ''email already exists''), snd registered)"
  by code_simp

text \<open>
  Whatever the casing, a registration whose normalised email is already stored never
  succeeds; what depends on the casing is only which error it fails with.
\<close>

lemma userCreate_taken:
  assumes "\<exists>u \<in> set (users db). Email u = Email user"
  shows "isl (userCreate env user db)"
  using assms by (auto simp: userCreate_def)

lemma Register_success_stores_email:
  assumes "fst (RegisterExecute ps ts env req db) = Inr response"
  shows "\<exists>u \<in> set (users (snd (RegisterExecute ps ts env req db))).
           Email u = ToLower (TrimSpace (RegisterEmail req))"
  using assms
  by (auto simp: RegisterExecute_def Let_def userCreate_def SetPassword_def NewUser_def
      GenerateAccessToken_def GenerateRefreshToken_def SignedString_def
      split: sum.splits option.splits if_splits)

lemma Register_normalised_email_taken:
  assumes "\<exists>u \<in> set (users db). Email u = ToLower (TrimSpace (RegisterEmail req))"
  shows "isl (fst (RegisterExecute ps ts env req db))"
proof -
  have "\<And>hashedPassword. isl (userCreate env
           (SetPassword (Now env) hashedPassword
              (NewUser (UserUUID env) (Now env) (RegisterEmail req) (RegisterName req) RoleUser)) db)"
    using assms by (intro userCreate_taken) (simp add: SetPassword_def NewUser_def)
  then have dup: "\<And>hashedPassword db1. userCreate env
           (SetPassword (Now env) hashedPassword
              (NewUser (UserUUID env) (Now env) (RegisterEmail req) (RegisterName req) RoleUser)) db
           = Inr db1 \<Longrightarrow> False"
    by (metis sum.disc(2))
  show ?thesis
    unfolding RegisterExecute_def Let_def
    by (auto split: sum.splits option.splits dest: dup)
qed

section \<open>Passwords\<close>

lemma HashPassword_over_72_bytes:
  "72 < length password \<Longrightarrow> isl (HashPassword ps salt password)"
  by (simp add: HashPassword_def GenerateFromPassword_def split: option.splits)

lemma HashPassword_round_trip:
  "HashPassword ps salt password = Inr hash \<Longrightarrow> VerifyPassword ps' password hash = None"
  by (auto simp: HashPassword_def GenerateFromPassword_def VerifyPassword_def
      CompareHashAndPassword_def Let_def split: option.splits if_splits)

text \<open>
  C6: a password of 100 bytes passes the password service's own length check, which
  admits up to 128 bytes, and is then refused by bcrypt, which admits 72.
\<close>

theorem C6_password_over_72_bytes_not_hashed:
  "length (replicate 100 (CHR ''a'')) = 100 \<and>
   ValidatePassword NewPasswordService (replicate 100 (CHR ''a'')) = None \<and>
   HashPassword NewPasswordService ''salt-1'' (replicate 100 (CHR ''a'')) =
     Inl (Wrap ''failed to hash password'' ErrPasswordTooLong)"
  by code_simp

text \<open>
  Within bcrypt's 72 bytes, and for passwords without a zero byte, the key material
  determines the password, so another password does not verify. With a zero byte it may:
  the key schedule reads \<^verbatim>\<open>password1\<close> and \<^verbatim>\<open>password1\<close>, a zero byte,
  \<^verbatim>\<open>password1\<close> as the same 72 bytes.
\<close>

lemma eksKey_short:
  assumes "length password < 72"
  shows "\<exists>rest. eksKey password = password @ CHR 0x00 # rest"
proof -
  have "replicate 72 (password @ [CHR 0x00]) =
        (password @ [CHR 0x00]) # replicate 71 (password @ [CHR 0x00])"
    by (simp add: numeral_eq_Suc)
  then have "eksKey password =
             take 72 (password @ CHR 0x00 # concat (replicate 71 (password @ [CHR 0x00])))"
    by (simp add: eksKey_def)
  also have "\<dots> = password @ CHR 0x00 #
               take (71 - length password) (concat (replicate 71 (password @ [CHR 0x00])))"
    using assms by (simp add: take_Cons')
  finally show ?thesis by blast
qed

lemma eksKey_full:
  assumes "length password = 72"
  shows "eksKey password = password"
proof -
  have "replicate 72 (password @ [CHR 0x00]) =
        (password @ [CHR 0x00]) # replicate 71 (password @ [CHR 0x00])"
    by (simp add: numeral_eq_Suc)
  then show ?thesis using assms by (simp add: eksKey_def)
qed

lemma eksKey_takeWhile:
  assumes "length password \<le> 72" and "CHR 0x00 \<notin> set password"
  shows "takeWhile (\<lambda>c. c \<noteq> CHR 0x00) (eksKey password) = password"
proof (cases "length password = 72")
  case True
  then show ?thesis using assms(2) by (auto simp: eksKey_full)
next
  case False
  with assms(1) have "length password < 72" by simp
  from eksKey_short [OF this] obtain rest where "eksKey password = password @ CHR 0x00 # rest"
    by blast
  then show ?thesis using assms(2) by (auto simp: takeWhile_tail)
qed

lemma VerifyPassword_other_password:
  assumes "HashPassword ps salt password2 = Inr hash"
    and "length password \<le> 72"
    and "CHR 0x00 \<notin> set password" and "CHR 0x00 \<notin> set password2"
    and "password \<noteq> password2"
  shows "VerifyPassword ps' password hash = Some ErrMismatchedHashAndPassword"
proof -
  from assms(1) have len2: "length password2 \<le> 72"
    by (auto simp: HashPassword_def GenerateFromPassword_def split: option.splits if_splits)
  have "eksKey password \<noteq> eksKey password2"
  proof
    assume "eksKey password = eksKey password2"
    then have "takeWhile (\<lambda>c. c \<noteq> CHR 0x00) (eksKey password) =
               takeWhile (\<lambda>c. c \<noteq> CHR 0x00) (eksKey password2)" by simp
    then show False
      using assms(2-5) len2 by (simp add: eksKey_takeWhile)
  qed
  then show ?thesis using assms(1)
    by (auto simp: HashPassword_def GenerateFromPassword_def VerifyPassword_def
        CompareHashAndPassword_def Let_def split: option.splits if_splits)
qed

lemma VerifyPassword_key_cycling:
  "HashPassword NewPasswordService ''salt-1'' ''password1'' =
     Inr (Bcrypt 10 ''salt-1'' (eksKey ''password1'')) \<and>
   VerifyPassword NewPasswordService (''password1'' @ [CHR 0x00] @ ''password1'')
     (Bcrypt 10 ''salt-1'' (eksKey ''password1'')) = None"
  by code_simp

section \<open>Login and federated login\<close>

text \<open>
  C8: a login that fails because the email is unknown, because the account belongs to
  an OAuth provider, or because the account has no password or the password does not
  verify, returns the database exactly as it was; the error is "invalid credentials" or
  the request to use OAuth login.
\<close>

theorem C8_failed_login_keeps_sessions:
  assumes "FindByEmail env (LoginEmail req) db = Inr found"
    and "case found of
           None \<Rightarrow> True
         | Some user \<Rightarrow>
             IsOAuthUser user \<or>
             (case Password user of
                None \<Rightarrow> True
              | Some hash \<Rightarrow> VerifyPassword ps (LoginPassword req) hash \<noteq> None)"
  shows "snd (LoginExecute ps ts env req db) = db \<and>
         fst (LoginExecute ps ts env req db) \<in>
           {Inl (Err ''invalid credentials''), Inl (Err ''please use OAuth login for this account'')}"
  using assms
  by (auto simp: LoginExecute_def split: option.splits)

theorem C8_failed_login_keeps_sessions_witness:
  "snd (LoginExecute NewPasswordService exampleService (exampleEnv (3000 * Second) {} ''2'')
          \<lparr> LoginEmail = ''u@x.com'', LoginPassword = ''wrongpass'' \<rparr> exampleDB) = exampleDB \<and>
   fst (LoginExecute NewPasswordService exampleService (exampleEnv (3000 * Second) {} ''2'')
          \<lparr> LoginEmail = ''u@x.com'', LoginPassword = ''wrongpass'' \<rparr> exampleDB) \<in>
     {Inl (Err ''invalid credentials''), Inl (Err ''please use OAuth login for this account'')}"
proof -
  have found: "FindByEmail (exampleEnv (3000 * Second) {} ''2'')
                 (LoginEmail \<lparr> LoginEmail = ''u@x.com'', LoginPassword = ''wrongpass'' \<rparr>) exampleDB =
               Inr (Some exampleUser)"
    by code_simp
  have mismatch: "case Some exampleUser of
           None \<Rightarrow> True
         | Some user \<Rightarrow>
             IsOAuthUser user \<or>
             (case Password user of
                None \<Rightarrow> True
              | Some hash \<Rightarrow>
                  VerifyPassword NewPasswordService
                    (LoginPassword \<lparr> LoginEmail = ''u@x.com'', LoginPassword = ''wrongpass'' \<rparr>) hash
                  \<noteq> None)"
    by code_simp
  show ?thesis using C8_failed_login_keeps_sessions [OF found mismatch] .
qed

lemma Login_revocation_failure_ignored:
  assumes "TokenRevokeAllUserTokens \<in> Faults env" and "TokenCreate \<notin> Faults env"
    and "FindByEmail env (LoginEmail req) db = Inr (Some user)"
    and "\<not> IsOAuthUser user" and "Password user = Some hash"
    and "VerifyPassword ps (LoginPassword req) hash = None"
    and "GenerateAccessToken ts (Now env) (ID user) (Email user) (Role user) = Inr accessToken"
    and "GenerateRefreshToken ts (Now env) (ID user) (Email user) (Role user) = Inr refreshToken"
    and "\<forall>t \<in> set (tokens db). TokenID t \<noteq> TokenUUID env \<and> RefreshToken t \<noteq> refreshToken"
  shows "LoginExecute ps ts env req db =
           (Inr (ToAuthResponse user accessToken refreshToken
                   (Seconds (GetTokenExpiration ts TokenTypeAccess))),
            db\<lparr>tokens := tokens db @
                   [NewToken (TokenUUID env) (Now env) (ID user) refreshToken
                      (Now env + GetTokenExpiration ts TokenTypeRefresh)]\<rparr>)"
  unfolding LoginExecute_def Let_def
  by (simp only: assms(3-8) RevokeAllUserTokens_fault [OF assms(1)]
      tokenCreate_literal [OF assms(2,9)] sum.case option.case if_False)

lemma GoogleAuthIssue_revocation_failure_ignored:
  assumes "TokenRevokeAllUserTokens \<in> Faults env" and "TokenCreate \<notin> Faults env"
    and "GenerateAccessToken ts (Now env) (ID user) (Email user) (Role user) = Inr accessToken"
    and "GenerateRefreshToken ts (Now env) (ID user) (Email user) (Role user) = Inr refreshToken"
    and "\<forall>t \<in> set (tokens db). TokenID t \<noteq> TokenUUID env \<and> RefreshToken t \<noteq> refreshToken"
  shows "GoogleAuthIssue ts env user db =
           (Inr (ToAuthResponse user accessToken refreshToken
                   (Seconds (GetTokenExpiration ts TokenTypeAccess))),
            db\<lparr>tokens := tokens db @
                   [NewToken (TokenUUID env) (Now env) (ID user) refreshToken
                      (Now env + GetTokenExpiration ts TokenTypeRefresh)]\<rparr>)"
  unfolding GoogleAuthIssue_def Let_def
  by (simp only: assms(3,4) RevokeAllUserTokens_fault [OF assms(1)]
      tokenCreate_NewToken [OF assms(2,5)] sum.case)

lemma GoogleAuthExecute_blocks:
  assumes "VerifiedEmail g" and "GoogleAuthFind env g db0 = Inr (found, db1)"
    and "GoogleAuthCreate env g found db1 = Inr (user, db)"
  shows "GoogleAuthExecute ts env (Some g) db0 = GoogleAuthIssue ts env user db"
  using assms by (simp add: GoogleAuthExecute_def)

text \<open>
  C2, as the claim states it, fails: with a correct password and a failing revocation
  statement, the login of the example user succeeds, leaves the earlier session as it
  was (not revoked) and stores a second session.
\<close>

theorem C2_login_despite_failed_revocation_counterexample:
  "RevokeAllUserTokens (exampleEnv (3000 * Second) {TokenRevokeAllUserTokens} ''2'') ''user-1''
     exampleDB = Inl (Wrap ''failed to revoke all user tokens'' ErrDriver) \<and>
   \<not> isl (fst (LoginExecute NewPasswordService exampleService
                 (exampleEnv (3000 * Second) {TokenRevokeAllUserTokens} ''2'')
                 \<lparr> LoginEmail = ''u@x.com'', LoginPassword = ''password1'' \<rparr> exampleDB)) \<and>
   tokens (snd (LoginExecute NewPasswordService exampleService
                  (exampleEnv (3000 * Second) {TokenRevokeAllUserTokens} ''2'')
                  \<lparr> LoginEmail = ''u@x.com'', LoginPassword = ''password1'' \<rparr> exampleDB)) =
     [exampleSession,
      NewToken ''token-2'' (3000 * Second) ''user-1''
        (issued (GenerateRefreshToken exampleService (3000 * Second) ''user-1'' ''u@x.com'' ''USER''))
        (3000 * Second + 604800 * Second)]"
  by code_simp

text \<open>
  C2, amended: when the revocation statement fails, the failure is ignored. A login whose
  credentials check out, and a federated login whose user has been found, merged or
  created, go on to issue the token pair and to store the new session on the session
  table as it was, with no session revoked; they succeed whenever the store accepts the
  new row (the statement does not fail, and the drawn ID and the new token are not yet
  in the table).
\<close>

theorem C2_revocation_failure_ignored:
  assumes "TokenRevokeAllUserTokens \<in> Faults env" and "TokenCreate \<notin> Faults env"
  shows
    "(FindByEmail env (LoginEmail req) db = Inr (Some user) \<and>
      \<not> IsOAuthUser user \<and> Password user = Some hash \<and>
      VerifyPassword ps (LoginPassword req) hash = None \<and>
      GenerateAccessToken ts (Now env) (ID user) (Email user) (Role user) = Inr accessToken \<and>
      GenerateRefreshToken ts (Now env) (ID user) (Email user) (Role user) = Inr refreshToken \<and>
      (\<forall>t \<in> set (tokens db). TokenID t \<noteq> TokenUUID env \<and> RefreshToken t \<noteq> refreshToken) \<longrightarrow>
      LoginExecute ps ts env req db =
        (Inr (ToAuthResponse user accessToken refreshToken
                (Seconds (GetTokenExpiration ts TokenTypeAccess))),
         db\<lparr>tokens := tokens db @
                [NewToken (TokenUUID env) (Now env) (ID user) refreshToken
                   (Now env + GetTokenExpiration ts TokenTypeRefresh)]\<rparr>)) \<and>
     (VerifiedEmail g \<and> GoogleAuthFind env g gdb0 = Inr (found, gdb1) \<and>
      GoogleAuthCreate env g found gdb1 = Inr (guser, gdb) \<and>
      GenerateAccessToken ts (Now env) (ID guser) (Email guser) (Role guser) = Inr gaccessToken \<and>
      GenerateRefreshToken ts (Now env) (ID guser) (Email guser) (Role guser) = Inr grefreshToken \<and>
      (\<forall>t \<in> set (tokens gdb). TokenID t \<noteq> TokenUUID env \<and> RefreshToken t \<noteq> grefreshToken) \<longrightarrow>
      GoogleAuthExecute ts env (Some g) gdb0 =
        (Inr (ToAuthResponse guser gaccessToken grefreshToken
                (Seconds (GetTokenExpiration ts TokenTypeAccess))),
         gdb\<lparr>tokens := tokens gdb @
                 [NewToken (TokenUUID env) (Now env) (ID guser) grefreshToken
                    (Now env + GetTokenExpiration ts TokenTypeRefresh)]\<rparr>))"
proof (intro conjI impI)
  assume "FindByEmail env (LoginEmail req) db = Inr (Some user) \<and>
      \<not> IsOAuthUser user \<and> Password user = Some hash \<and>
      VerifyPassword ps (LoginPassword req) hash = None \<and>
      GenerateAccessToken ts (Now env) (ID user) (Email user) (Role user) = Inr accessToken \<and>
      GenerateRefreshToken ts (Now env) (ID user) (Email user) (Role user) = Inr refreshToken \<and>
      (\<forall>t \<in> set (tokens db). TokenID t \<noteq> TokenUUID env \<and> RefreshToken t \<noteq> refreshToken)"
  then show "LoginExecute ps ts env req db =
        (Inr (ToAuthResponse user accessToken refreshToken
                (Seconds (GetTokenExpiration ts TokenTypeAccess))),
         db\<lparr>tokens := tokens db @
                [NewToken (TokenUUID env) (Now env) (ID user) refreshToken
                   (Now env + GetTokenExpiration ts TokenTypeRefresh)]\<rparr>)"
    using Login_revocation_failure_ignored [OF assms] by blast
next
  assume g: "VerifiedEmail g \<and> GoogleAuthFind env g gdb0 = Inr (found, gdb1) \<and>
      GoogleAuthCreate env g found gdb1 = Inr (guser, gdb) \<and>
      GenerateAccessToken ts (Now env) (ID guser) (Email guser) (Role guser) = Inr gaccessToken \<and>
      GenerateRefreshToken ts (Now env) (ID guser) (Email guser) (Role guser) = Inr grefreshToken \<and>
      (\<forall>t \<in> set (tokens gdb). TokenID t \<noteq> TokenUUID env \<and> RefreshToken t \<noteq> grefreshToken)"
  then have "GoogleAuthExecute ts env (Some g) gdb0 = GoogleAuthIssue ts env guser gdb"
    using GoogleAuthExecute_blocks by blast
  moreover have "GoogleAuthIssue ts env guser gdb =
        (Inr (ToAuthResponse guser gaccessToken grefreshToken
                (Seconds (GetTokenExpiration ts TokenTypeAccess))),
         gdb\<lparr>tokens := tokens gdb @
                 [NewToken (TokenUUID env) (Now env) (ID guser) grefreshToken
                    (Now env + GetTokenExpiration ts TokenTypeRefresh)]\<rparr>)"
    using g GoogleAuthIssue_revocation_failure_ignored [OF assms] by blast
  ultimately show "GoogleAuthExecute ts env (Some g) gdb0 =
        (Inr (ToAuthResponse guser gaccessToken grefreshToken
                (Seconds (GetTokenExpiration ts TokenTypeAccess))),
         gdb\<lparr>tokens := tokens gdb @
                 [NewToken (TokenUUID env) (Now env) (ID guser) grefreshToken
                    (Now env + GetTokenExpiration ts TokenTypeRefresh)]\<rparr>)"
    by (rule trans)
qed

theorem C2_revocation_failure_ignored_witness:
  "LoginExecute NewPasswordService exampleService
     (exampleEnv (4000 * Second) {TokenRevokeAllUserTokens} ''4'')
     \<lparr> LoginEmail = ''u@x.com'', LoginPassword = ''password1'' \<rparr> exampleDB =
     (Inr (ToAuthResponse exampleUser
             (issued (GenerateAccessToken exampleService (4000 * Second) ''user-1'' ''u@x.com'' ''USER''))
             (issued (GenerateRefreshToken exampleService (4000 * Second) ''user-1'' ''u@x.com'' ''USER''))
             (Seconds (GetTokenExpiration exampleService TokenTypeAccess))),
      exampleDB\<lparr>tokens := tokens exampleDB @
         [NewToken (TokenUUID (exampleEnv (4000 * Second) {TokenRevokeAllUserTokens} ''4''))
            (Now (exampleEnv (4000 * Second) {TokenRevokeAllUserTokens} ''4'')) (ID exampleUser)
            (issued (GenerateRefreshToken exampleService (4000 * Second) ''user-1'' ''u@x.com'' ''USER''))
            (Now (exampleEnv (4000 * Second) {TokenRevokeAllUserTokens} ''4'') +
             GetTokenExpiration exampleService TokenTypeRefresh)]\<rparr>) \<and>
   GoogleAuthExecute exampleService
     (exampleEnv (4000 * Second) {TokenRevokeAllUserTokens} ''4'') (Some linkedInfo) linkedDB =
     (Inr (ToAuthResponse linkedUser
             (issued (GenerateAccessToken exampleService (4000 * Second) ''user-9'' ''g@x.com'' ''USER''))
             (issued (GenerateRefreshToken exampleService (4000 * Second) ''user-9'' ''g@x.com'' ''USER''))
             (Seconds (GetTokenExpiration exampleService TokenTypeAccess))),
      linkedDB\<lparr>tokens := tokens linkedDB @
         [NewToken (TokenUUID (exampleEnv (4000 * Second) {TokenRevokeAllUserTokens} ''4''))
            (Now (exampleEnv (4000 * Second) {TokenRevokeAllUserTokens} ''4'')) (ID linkedUser)
            (issued (GenerateRefreshToken exampleService (4000 * Second) ''user-9'' ''g@x.com'' ''USER''))
            (Now (exampleEnv (4000 * Second) {TokenRevokeAllUserTokens} ''4'') +
             GetTokenExpiration exampleService TokenTypeRefresh)]\<rparr>)"
proof -
  let ?env = "exampleEnv (4000 * Second) {TokenRevokeAllUserTokens} ''4''"
  let ?req = "\<lparr> LoginEmail = ''u@x.com'', LoginPassword = ''password1'' \<rparr>"
  let ?at = "issued (GenerateAccessToken exampleService (4000 * Second) ''user-1'' ''u@x.com'' ''USER'')"
  let ?rt = "issued (GenerateRefreshToken exampleService (4000 * Second) ''user-1'' ''u@x.com'' ''USER'')"
  let ?gat = "issued (GenerateAccessToken exampleService (4000 * Second) ''user-9'' ''g@x.com'' ''USER'')"
  let ?grt = "issued (GenerateRefreshToken exampleService (4000 * Second) ''user-9'' ''g@x.com'' ''USER'')"
  have revoke: "TokenRevokeAllUserTokens \<in> Faults ?env" by code_simp
  have create: "TokenCreate \<notin> Faults ?env" by code_simp
  have login: "FindByEmail ?env (LoginEmail ?req) exampleDB = Inr (Some exampleUser) \<and>
      \<not> IsOAuthUser exampleUser \<and>
      Password exampleUser = Some (Bcrypt 10 ''salt-1'' (eksKey ''password1'')) \<and>
      VerifyPassword NewPasswordService (LoginPassword ?req)
        (Bcrypt 10 ''salt-1'' (eksKey ''password1'')) = None \<and>
      GenerateAccessToken exampleService (Now ?env) (ID exampleUser) (Email exampleUser)
        (Role exampleUser) = Inr ?at \<and>
      GenerateRefreshToken exampleService (Now ?env) (ID exampleUser) (Email exampleUser)
        (Role exampleUser) = Inr ?rt \<and>
      (\<forall>t \<in> set (tokens exampleDB). TokenID t \<noteq> TokenUUID ?env \<and> RefreshToken t \<noteq> ?rt)"
    by code_simp
  have google: "VerifiedEmail linkedInfo \<and>
      GoogleAuthFind ?env linkedInfo linkedDB = Inr (Some linkedUser, linkedDB) \<and>
      GoogleAuthCreate ?env linkedInfo (Some linkedUser) linkedDB = Inr (linkedUser, linkedDB) \<and>
      GenerateAccessToken exampleService (Now ?env) (ID linkedUser) (Email linkedUser)
        (Role linkedUser) = Inr ?gat \<and>
      GenerateRefreshToken exampleService (Now ?env) (ID linkedUser) (Email linkedUser)
        (Role linkedUser) = Inr ?grt \<and>
      (\<forall>t \<in> set (tokens linkedDB). TokenID t \<noteq> TokenUUID ?env \<and> RefreshToken t \<noteq> ?grt)"
    by code_simp
  note ignored = C2_revocation_failure_ignored [OF revoke create,
      where ps = NewPasswordService and ts = exampleService]
  show ?thesis
    using ignored [THEN conjunct1, THEN mp, OF login] ignored [THEN conjunct2, THEN mp, OF google]
    by (rule conjI)
qed

lemma GoogleAuthIssue_users: "users (snd (GoogleAuthIssue ts env user db)) = users db"
proof -
  have r: "users (case RevokeAllUserTokens env (ID user) db of
                    Inl err \<Rightarrow> db
                  | Inr revoked \<Rightarrow> revoked) = users db"
    by (simp add: RevokeAllUserTokens_def)
  show ?thesis
    unfolding GoogleAuthIssue_def Let_def
    using r by (auto split: sum.splits dest: tokenCreate_users)
qed

lemma GoogleAuthFind_merge:
  assumes "FindByProviderID env ProviderGoogle (GoogleID g) db = Inr None"
    and "FindByEmail env (GoogleEmail g) db = Inr (Some user)"
    and "Provider user \<noteq> ProviderGoogle"
    and "userUpdate env
           (user\<lparr> Provider := ProviderGoogle, ProviderID := Some (GoogleID g),
                  Avatar := (if GoogleAvatar g \<noteq> [] then Some (GoogleAvatar g) else Avatar user),
                  EmailVerified := True, UpdatedAt := Now env \<rparr>) db = Inr db1"
  shows "GoogleAuthFind env g db =
           Inr (Some (user\<lparr> Provider := ProviderGoogle, ProviderID := Some (GoogleID g),
                             Avatar := (if GoogleAvatar g \<noteq> [] then Some (GoogleAvatar g)
                                        else Avatar user),
                             EmailVerified := True, UpdatedAt := Now env \<rparr>), db1)"
  using assms by (simp add: GoogleAuthFind_def Let_def)

lemma GoogleAuthExecute_found:
  assumes "VerifiedEmail g" and "GoogleAuthFind env g db = Inr (Some merged, db1)"
  shows "GoogleAuthExecute ts env (Some g) db = GoogleAuthIssue ts env merged db1"
  using assms by (simp add: GoogleAuthExecute_def GoogleAuthCreate_def)

text \<open>
  C5, as the claim states it, fails: the local user has an avatar of their own, no user
  is linked to the Google ID, and the federated login replaces the user's avatar by
  Google's.
\<close>

theorem C5_avatar_replaced_counterexample:
  "FindByProviderID (exampleEnv (3000 * Second) {} ''2'') ProviderGoogle (GoogleID googleInfo)
     avatarDB = Inr None \<and>
   FindByEmail (exampleEnv (3000 * Second) {} ''2'') (GoogleEmail googleInfo) avatarDB =
     Inr (Some avatarUser) \<and>
   Provider avatarUser \<noteq> ProviderGoogle \<and>
   Avatar avatarUser = Some ''avatars/user-1.png'' \<and>
   map Avatar (users (snd (GoogleAuthExecute exampleService (exampleEnv (3000 * Second) {} ''2'')
                             (Some googleInfo) avatarDB))) =
     [Some ''https://lh3.googleusercontent.com/a/new'']"
  by code_simp

text \<open>
  C5, amended: in a federated login with a verified email, when no user is linked to the
  Google ID and the lookup by the email as Google gave it finds a user of another
  provider, and the update of that user's row succeeds, the row is rewritten with
  provider GOOGLE, the Google ID, the email marked verified and the time of the update;
  the avatar becomes Google's whenever Google's is not empty, also when the user had
  one, and stays as it was otherwise. Every other column, the password hash and the
  role among them, is as before, and so is every other row.
\<close>

theorem C5_federated_merge:
  assumes "VerifiedEmail g"
    and "FindByProviderID env ProviderGoogle (GoogleID g) db = Inr None"
    and "FindByEmail env (GoogleEmail g) db = Inr (Some user)"
    and "Provider user \<noteq> ProviderGoogle"
    and "UserUpdate \<notin> Faults env"
    and "\<forall>u \<in> set (users db). Email u = Email user \<longrightarrow> ID u = ID user"
  shows "user \<in> set (users db) \<and>
         users (snd (GoogleAuthExecute ts env (Some g) db)) =
           map (\<lambda>u. if ID u = ID user
                    then user\<lparr> Provider := ProviderGoogle,
                              ProviderID := Some (GoogleID g),
                              Avatar := (if GoogleAvatar g \<noteq> [] then Some (GoogleAvatar g)
                                         else Avatar user),
                              EmailVerified := True,
                              UpdatedAt := Now env \<rparr>
                    else u)
               (users db)"
proof -
  let ?merged = "user\<lparr> Provider := ProviderGoogle, ProviderID := Some (GoogleID g),
      Avatar := (if GoogleAvatar g \<noteq> [] then Some (GoogleAvatar g) else Avatar user),
      EmailVerified := True, UpdatedAt := Now env \<rparr>"
  let ?db1 = "db\<lparr>users := map (\<lambda>u. if ID u = ID user then ?merged else u) (users db)\<rparr>"
  from assms(3) have "First ID (\<lambda>u. Email u = GoogleEmail g) (users db) = Some user"
    by (simp add: FindByEmail_def split: if_splits)
  then have mem: "user \<in> set (users db)" by (simp add: First_SomeD)
  have "ID ?merged = ID user" "Email ?merged = Email user"
    "?merged\<lparr>UpdatedAt := Now env\<rparr> = ?merged"
    by simp_all
  then have upd: "userUpdate env ?merged db = Inr ?db1"
    by (rule userUpdate_existing [OF assms(5,6) mem])
  have find: "GoogleAuthFind env g db = Inr (Some ?merged, ?db1)"
    by (rule GoogleAuthFind_merge [OF assms(2,3,4) upd])
  have "GoogleAuthExecute ts env (Some g) db = GoogleAuthIssue ts env ?merged ?db1"
    by (rule GoogleAuthExecute_found [OF assms(1) find])
  then have "users (snd (GoogleAuthExecute ts env (Some g) db)) = users ?db1"
    by (simp only: GoogleAuthIssue_users)
  also have "users ?db1 = map (\<lambda>u. if ID u = ID user then ?merged else u) (users db)"
    by simp
  finally show ?thesis using mem by simp
qed

theorem C5_federated_merge_witness:
  "exampleUser \<in> set (users exampleDB) \<and>
   users (snd (GoogleAuthExecute exampleService (exampleEnv (3000 * Second) {} ''2'')
                 (Some googleInfo) exampleDB)) =
     map (\<lambda>u. if ID u = ID exampleUser
              then exampleUser\<lparr> Provider := ProviderGoogle,
                        ProviderID := Some (GoogleID googleInfo),
                        Avatar := (if GoogleAvatar googleInfo \<noteq> [] then Some (GoogleAvatar googleInfo)
                                   else Avatar exampleUser),
                        EmailVerified := True,
                        UpdatedAt := Now (exampleEnv (3000 * Second) {} ''2'') \<rparr>
              else u)
         (users exampleDB)"
proof -
  let ?env = "exampleEnv (3000 * Second) {} ''2''"
  have verified: "VerifiedEmail googleInfo" by code_simp
  have unlinked: "FindByProviderID ?env ProviderGoogle (GoogleID googleInfo) exampleDB = Inr None"
    by code_simp
  have byEmail: "FindByEmail ?env (GoogleEmail googleInfo) exampleDB = Inr (Some exampleUser)"
    by code_simp
  have local: "Provider exampleUser \<noteq> ProviderGoogle" by code_simp
  have update: "UserUpdate \<notin> Faults ?env" by code_simp
  have unique: "\<forall>u \<in> set (users exampleDB). Email u = Email exampleUser \<longrightarrow> ID u = ID exampleUser"
    by code_simp
  show ?thesis
    using C5_federated_merge [OF verified unlinked byEmail local update unique,
        where ts = exampleService] .
qed

section \<open>Refresh\<close>

text \<open>
  C10: when a refresh fails with "user not found", the database is returned exactly as
  it was, and the presented token is still active in it: the user is looked up before
  the old session is deleted.
\<close>

theorem C10_refresh_user_not_found_keeps_session:
  assumes "fst (RefreshExecute ts env req db) = Inl (Err ''user not found'')"
  shows "snd (RefreshExecute ts env req db) = db \<and>
         IsTokenValid env (RequestRefreshToken req) db = Inr True"
  using assms
  by (auto simp: RefreshExecute_def Let_def split: sum.splits if_splits option.splits)

theorem C10_refresh_user_not_found_keeps_session_witness:
  "snd (RefreshExecute exampleService (exampleEnv (3000 * Second) {} ''2'')
          \<lparr> RequestRefreshToken = exampleRefreshToken \<rparr> orphanDB) = orphanDB \<and>
   IsTokenValid (exampleEnv (3000 * Second) {} ''2'')
     (RequestRefreshToken \<lparr> RequestRefreshToken = exampleRefreshToken \<rparr>) orphanDB = Inr True"
proof -
  have notfound: "fst (RefreshExecute exampleService (exampleEnv (3000 * Second) {} ''2'')
                         \<lparr> RequestRefreshToken = exampleRefreshToken \<rparr> orphanDB) =
                  Inl (Err ''user not found'')"
    by code_simp
  show ?thesis using C10_refresh_user_not_found_keeps_session [OF notfound] .
qed

text \<open>
  C3, as the claim states it, fails: the example refresh token passes the refresh-token
  validator and is active in the session table, but the user it names has been deleted,
  and redeeming it fails with "user not found".
\<close>

theorem C3_valid_active_token_of_deleted_user_counterexample:
  "\<not> isl (ValidateRefreshToken exampleService (5000 * Second) exampleRefreshToken) \<and>
   IsTokenValid (exampleEnv (5000 * Second) {} ''5'') exampleRefreshToken orphanDB = Inr True \<and>
   RefreshExecute exampleService (exampleEnv (5000 * Second) {} ''5'')
     \<lparr> RequestRefreshToken = exampleRefreshToken \<rparr> orphanDB =
     (Inl (Err ''user not found''), orphanDB)"
  by code_simp

text \<open>
  A token that passes a validator is a well-formed token carrying the claims returned,
  and a refresh token carries the second in which it was issued. A refresh token issued
  now therefore differs from one that passes the validator and was not issued in the
  current clock second.
\<close>

lemma validateToken_Inr_JWT:
  assumes "validateToken ts now tok expected = Inr c"
  shows "\<exists>alg sig. tok = JWT alg c sig"
proof (cases tok)
  case (JWT alg claims sig)
  with assms validateToken_Inr_claims [of ts now alg claims sig expected c]
  show ?thesis by simp
next
  case (Malformed s)
  with assms show ?thesis by (simp add: validateToken_def ParseWithClaims_def)
qed

lemma GenerateRefreshToken_IssuedAt:
  assumes "GenerateRefreshToken ts now userID email role = Inr (JWT alg claims sig)"
  shows "ClaimsIssuedAt claims = Some (NewNumericDate now)"
  using assms by (auto simp: GenerateRefreshToken_def SignedString_def)

lemma new_refresh_token_differs:
  assumes "ValidateRefreshToken ts now old = Inr claims"
    and "ClaimsIssuedAt claims \<noteq> Some (NewNumericDate now')"
    and "GenerateRefreshToken ts' now' userID email role = Inr new"
  shows "new \<noteq> old"
proof
  assume "new = old"
  from assms(1) have "validateToken ts now old TokenTypeRefresh = Inr claims"
    by (simp add: ValidateRefreshToken_def)
  from validateToken_Inr_JWT [OF this] obtain alg sig where "old = JWT alg claims sig"
    by blast
  with \<open>new = old\<close> assms(3)
  have "GenerateRefreshToken ts' now' userID email role = Inr (JWT alg claims sig)" by simp
  from GenerateRefreshToken_IssuedAt [OF this] assms(2) show False by simp
qed

text \<open>
  C3, amended: let a refresh token pass the refresh-token validator and be active in the
  session table, let the user named by its claims exist, let the token not have been
  issued in the clock second of this call, let neither the deletion nor the insertion
  statement fail, and let no session of another token have the session ID drawn or the
  refresh token issued now. Then the refresh succeeds; the refresh token it returns
  differs from the one presented; the session table is the old one without the rows of
  the presented token, followed by the row of the new token; and presenting the old
  token again to the resulting database, at any time at which it still passes the
  validator and with a validity query that does not fail, fails with "refresh token has
  been revoked or expired" and changes nothing.
\<close>

theorem C3_refresh_rotation:
  assumes valid: "ValidateRefreshToken ts (Now env) (RequestRefreshToken req) = Inr claims"
    and active: "IsTokenValid env (RequestRefreshToken req) db = Inr True"
    and exists: "FindByID env (ClaimsUserID claims) db = Inr (Some user)"
    and earlier: "ClaimsIssuedAt claims \<noteq> Some (NewNumericDate (Now env))"
    and delete: "TokenDeleteByRefreshToken \<notin> Faults env"
    and create: "TokenCreate \<notin> Faults env"
    and new: "GenerateRefreshToken ts (Now env) (ID user) (Email user) (Role user) =
              Inr newRefreshToken"
    and accepted: "\<forall>t \<in> set (tokens db). RefreshToken t \<noteq> RequestRefreshToken req \<longrightarrow>
                     TokenID t \<noteq> TokenUUID env \<and> RefreshToken t \<noteq> newRefreshToken"
    and valid': "ValidateRefreshToken ts (Now env') (RequestRefreshToken req) = Inr claims'"
    and query': "TokenIsTokenValid \<notin> Faults env'"
  shows "map_sum id ResponseRefreshToken (fst (RefreshExecute ts env req db)) = Inr newRefreshToken \<and>
         newRefreshToken \<noteq> RequestRefreshToken req \<and>
         tokens (snd (RefreshExecute ts env req db)) =
           filter (\<lambda>t. RefreshToken t \<noteq> RequestRefreshToken req) (tokens db) @
           [NewToken (TokenUUID env) (Now env) (ID user) newRefreshToken
              (Now env + GetTokenExpiration ts TokenTypeRefresh)] \<and>
         RefreshExecute ts env' req (snd (RefreshExecute ts env req db)) =
           (Inl (Err ''refresh token has been revoked or expired''),
            snd (RefreshExecute ts env req db))"
proof -
  let ?old = "RequestRefreshToken req"
  let ?db1 = "db\<lparr>tokens := filter (\<lambda>t. RefreshToken t \<noteq> ?old) (tokens db)\<rparr>"
  let ?row = "NewToken (TokenUUID env) (Now env) (ID user) newRefreshToken
                (Now env + GetTokenExpiration ts TokenTypeRefresh)"
  let ?db2 = "?db1\<lparr>tokens := tokens ?db1 @ [?row]\<rparr>"
  obtain accessToken where
    access: "GenerateAccessToken ts (Now env) (ID user) (Email user) (Role user) = Inr accessToken"
    using GenerateAccessToken_Inr by blast
  have differ: "newRefreshToken \<noteq> ?old"
    by (rule new_refresh_token_differs [OF valid earlier new])
  have fresh1: "\<forall>t \<in> set (tokens ?db1). TokenID t \<noteq> TokenUUID env \<and> RefreshToken t \<noteq> newRefreshToken"
    using accepted by simp
  have first: "RefreshExecute ts env req db =
                 (Inr (ToAuthResponse user accessToken newRefreshToken
                         (Seconds (GetTokenExpiration ts TokenTypeAccess))), ?db2)"
    unfolding RefreshExecute_def Let_def
    by (simp only: valid active exists access new DeleteByRefreshToken_ok [OF delete]
        tokenCreate_NewToken [OF create fresh1] sum.case option.case if_False not_True_eq_False)
  have gone: "\<forall>t \<in> set (tokens ?db2). RefreshToken t \<noteq> ?old"
    using differ by (auto simp: NewToken_def)
  have second: "RefreshExecute ts env' req ?db2 =
                  (Inl (Err ''refresh token has been revoked or expired''), ?db2)"
    unfolding RefreshExecute_def
    by (simp only: valid' IsTokenValid_absent [OF query' gone] sum.case if_True not_False_eq_True)
  show ?thesis
    unfolding first using differ second by (simp add: ToAuthResponse_def)
qed

theorem C3_refresh_rotation_witness:
  "map_sum id ResponseRefreshToken
     (fst (RefreshExecute exampleService (exampleEnv (3000 * Second) {} ''2'')
             \<lparr> RequestRefreshToken = exampleRefreshToken \<rparr> twoSessionDB)) =
     Inr (issued (GenerateRefreshToken exampleService (3000 * Second) ''user-1'' ''u@x.com'' ''USER'')) \<and>
   issued (GenerateRefreshToken exampleService (3000 * Second) ''user-1'' ''u@x.com'' ''USER'') \<noteq>
     RequestRefreshToken \<lparr> RequestRefreshToken = exampleRefreshToken \<rparr> \<and>
   tokens (snd (RefreshExecute exampleService (exampleEnv (3000 * Second) {} ''2'')
                  \<lparr> RequestRefreshToken = exampleRefreshToken \<rparr> twoSessionDB)) =
     filter (\<lambda>t. RefreshToken t \<noteq> RequestRefreshToken \<lparr> RequestRefreshToken = exampleRefreshToken \<rparr>)
       (tokens twoSessionDB) @
     [NewToken (TokenUUID (exampleEnv (3000 * Second) {} ''2''))
        (Now (exampleEnv (3000 * Second) {} ''2'')) (ID exampleUser)
        (issued (GenerateRefreshToken exampleService (3000 * Second) ''user-1'' ''u@x.com'' ''USER''))
        (Now (exampleEnv (3000 * Second) {} ''2'') +
         GetTokenExpiration exampleService TokenTypeRefresh)] \<and>
   RefreshExecute exampleService (exampleEnv (3001 * Second) {} ''3'')
     \<lparr> RequestRefreshToken = exampleRefreshToken \<rparr>
     (snd (RefreshExecute exampleService (exampleEnv (3000 * Second) {} ''2'')
             \<lparr> RequestRefreshToken = exampleRefreshToken \<rparr> twoSessionDB)) =
     (Inl (Err ''refresh token has been revoked or expired''),
      snd (RefreshExecute exampleService (exampleEnv (3000 * Second) {} ''2'')
             \<lparr> RequestRefreshToken = exampleRefreshToken \<rparr> twoSessionDB))"
proof -
  let ?env = "exampleEnv (3000 * Second) {} ''2''"
  let ?env' = "exampleEnv (3001 * Second) {} ''3''"
  let ?req = "\<lparr> RequestRefreshToken = exampleRefreshToken \<rparr>"
  let ?claims = "projr (ValidateRefreshToken exampleService (Now ?env) (RequestRefreshToken ?req))"
  let ?claims' = "projr (ValidateRefreshToken exampleService (Now ?env') (RequestRefreshToken ?req))"
  let ?new = "issued (GenerateRefreshToken exampleService (3000 * Second) ''user-1'' ''u@x.com'' ''USER'')"
  have valid: "ValidateRefreshToken exampleService (Now ?env) (RequestRefreshToken ?req) = Inr ?claims"
    by code_simp
  have active: "IsTokenValid ?env (RequestRefreshToken ?req) twoSessionDB = Inr True"
    by code_simp
  have exists: "FindByID ?env (ClaimsUserID ?claims) twoSessionDB = Inr (Some exampleUser)"
    by code_simp
  have earlier: "ClaimsIssuedAt ?claims \<noteq> Some (NewNumericDate (Now ?env))"
    by code_simp
  have delete: "TokenDeleteByRefreshToken \<notin> Faults ?env" by code_simp
  have create: "TokenCreate \<notin> Faults ?env" by code_simp
  have new: "GenerateRefreshToken exampleService (Now ?env) (ID exampleUser) (Email exampleUser)
               (Role exampleUser) = Inr ?new"
    by code_simp
  have accepted: "\<forall>t \<in> set (tokens twoSessionDB).
                    RefreshToken t \<noteq> RequestRefreshToken ?req \<longrightarrow>
                    TokenID t \<noteq> TokenUUID ?env \<and> RefreshToken t \<noteq> ?new"
    by code_simp
  have valid': "ValidateRefreshToken exampleService (Now ?env') (RequestRefreshToken ?req) =
                Inr ?claims'"
    by code_simp
  have query': "TokenIsTokenValid \<notin> Faults ?env'" by code_simp
  show ?thesis
    using C3_refresh_rotation
      [OF valid active exists earlier delete create new accepted valid' query'] .
qed

text \<open>
  What the amended statement leaves out: the token issued in the clock second of the
  call. The dates in a token are whole seconds, and a token is determined by its claims
  and the key. A refresh token redeemed within the
  clock second in which it was issued, for a user whose email and role have not changed,
  is therefore answered with the very same token: here a login at 3000.2 seconds, a
  refresh at 3000.7 seconds that returns the token presented, and a second refresh of
  that token at 3000.9 seconds, which succeeds as well.
\<close>

lemma Refresh_within_the_issuing_second:
  "\<not> isl (fst loggedIn) \<and>
   map_sum id ResponseRefreshToken
     (fst (RefreshExecute exampleService (exampleEnv (3000 * Second) {} ''2'')
             \<lparr> RequestRefreshToken = exampleRefreshToken \<rparr> exampleDB)) \<noteq>
     Inr exampleRefreshToken \<and>
   map_sum id ResponseRefreshToken
     (fst (RefreshExecute exampleService (exampleEnv (3000 * Second + 700000000) {} ''3'')
             \<lparr> RequestRefreshToken = loggedInRefreshToken \<rparr> (snd loggedIn))) =
     Inr loggedInRefreshToken \<and>
   \<not> isl (fst (RefreshExecute exampleService (exampleEnv (3000 * Second + 900000000) {} ''4'')
                 \<lparr> RequestRefreshToken = loggedInRefreshToken \<rparr>
                 (snd (RefreshExecute exampleService
                         (exampleEnv (3000 * Second + 700000000) {} ''3'')
                         \<lparr> RequestRefreshToken = loggedInRefreshToken \<rparr> (snd loggedIn)))))"
  by code_simp

end
